theory Spec2Isabelle
  imports Complex_Main
begin

section \<open>JavaScript numbers\<close>

text \<open>
  A JavaScript number is a double: a finite value, given by the rational it denotes, or one
  of the three values that are not finite. The two operations of the scorer come twice:
  first in exact arithmetic, for the score as a real number, then as the engine computes
  them, each result rounded to the nearest double.
\<close>

datatype jsnum = Num rat | PosInf | NegInf | NaN

text \<open>\<open>distance / maxLen\<close> on two array lengths (non-negative integers).\<close>

definition js_div :: "nat \<Rightarrow> nat \<Rightarrow> jsnum" where
  "js_div d m =
     (if m = 0 then (if d = 0 then NaN else PosInf)
      else Num (rat_of_nat d / rat_of_nat m))"

text \<open>\<open>1 - x\<close>.\<close>

fun js_one_minus :: "jsnum \<Rightarrow> jsnum" where
  "js_one_minus (Num q) = Num (1 - q)"
| "js_one_minus PosInf = NegInf"
| "js_one_minus NegInf = PosInf"
| "js_one_minus NaN = NaN"

subsection \<open>Rounding to the nearest double\<close>

text \<open>
  \<open>pow2 e\<close> is \<open>2\<close> to the power \<open>e\<close>, and \<open>binary_exponent q\<close>, for a positive \<open>q\<close>, the
  \<open>e\<close> with \<open>pow2 e \<le> q < pow2 (e + 1)\<close>, found from the number of binary digits of the
  integer part of \<open>q\<close> or of \<open>1 / q\<close>.
\<close>

definition pow2 :: "int \<Rightarrow> rat" where
  "pow2 e = (if 0 \<le> e then 2 ^ nat e else 1 / 2 ^ nat (- e))"

fun bit_length :: "nat \<Rightarrow> nat" where
  "bit_length n = (if n = 0 then 0 else Suc (bit_length (n div 2)))"

definition exponent_below_one :: "rat \<Rightarrow> int \<Rightarrow> int" where
  "exponent_below_one q l = (if pow2 (1 - l) \<le> q then 1 - l else - l)"

definition binary_exponent :: "rat \<Rightarrow> int" where
  "binary_exponent q =
     (if 1 \<le> q then int (bit_length (nat \<lfloor>q\<rfloor>)) - 1
      else exponent_below_one q (int (bit_length (nat \<lfloor>1 / q\<rfloor>))))"

text \<open>The integer nearest to \<open>x\<close>, the even one of the two when \<open>x\<close> is half way.\<close>

definition nearest_even :: "rat \<Rightarrow> int \<Rightarrow> int" where
  "nearest_even x n =
     (if x - of_int n < 1 / 2 then n
      else if 1 / 2 < x - of_int n then n + 1
      else if even n then n else n + 1)"

definition round_half_even :: "rat \<Rightarrow> int" where
  "round_half_even x = nearest_even x \<lfloor>x\<rfloor>"

text \<open>
  A double has 53 significant binary digits and an exponent of at least \<open>-1022\<close>: a
  positive \<open>q\<close> is rounded to the nearest multiple of \<open>pow2 (e - 52)\<close>, where \<open>e\<close> is its
  exponent or \<open>-1022\<close> if that is larger. A result of \<open>pow2 1024\<close> or more is infinite.
\<close>

definition round_to_multiple :: "rat \<Rightarrow> rat \<Rightarrow> rat" where
  "round_to_multiple q ulp = of_int (round_half_even (q / ulp)) * ulp"

definition round_positive :: "rat \<Rightarrow> rat" where
  "round_positive q = round_to_multiple q (pow2 (max (binary_exponent q) (- 1022) - 52))"

definition finite_or :: "jsnum \<Rightarrow> rat \<Rightarrow> jsnum" where
  "finite_or overflow r = (if r < pow2 1024 then Num r else overflow)"

fun js_negate :: "jsnum \<Rightarrow> jsnum" where
  "js_negate (Num q) = Num (- q)"
| "js_negate PosInf = NegInf"
| "js_negate NegInf = PosInf"
| "js_negate NaN = NaN"

definition double_of :: "rat \<Rightarrow> jsnum" where
  "double_of q =
     (if q = 0 then Num 0
      else if 0 < q then finite_or PosInf (round_positive q)
      else js_negate (finite_or PosInf (round_positive (- q))))"

text \<open>
  \<open>distance / maxLen\<close> and \<open>1 - x\<close> as the engine computes them. The two operands of
  the division are lengths of strings, integers that are doubles as they are.
\<close>

definition double_div :: "nat \<Rightarrow> nat \<Rightarrow> jsnum" where
  "double_div d m =
     (if m = 0 then (if d = 0 then NaN else PosInf)
      else double_of (rat_of_nat d / rat_of_nat m))"

fun double_one_minus :: "jsnum \<Rightarrow> jsnum" where
  "double_one_minus (Num q) = double_of (1 - q)"
| "double_one_minus PosInf = NegInf"
| "double_one_minus NegInf = PosInf"
| "double_one_minus NaN = NaN"

text \<open>The double that the literal \<open>0.7\<close> denotes.\<close>

definition seven_tenths :: rat where
  "seven_tenths = 3152519739159347 / 4503599627370496"

text \<open>\<open>x >= y\<close> on two numbers: every comparison with NaN is false.\<close>

fun js_ge :: "jsnum \<Rightarrow> jsnum \<Rightarrow> bool" where
  "js_ge NaN y = False"
| "js_ge (Num a) NaN = False"
| "js_ge PosInf NaN = False"
| "js_ge NegInf NaN = False"
| "js_ge (Num a) (Num b) = (b \<le> a)"
| "js_ge (Num a) PosInf = False"
| "js_ge (Num a) NegInf = True"
| "js_ge PosInf (Num b) = True"
| "js_ge PosInf PosInf = True"
| "js_ge PosInf NegInf = True"
| "js_ge NegInf (Num b) = False"
| "js_ge NegInf PosInf = False"
| "js_ge NegInf NegInf = True"

section \<open>The similarity scorer\<close>

text \<open>
  First the score in exact arithmetic, on strings of characters with \<open>toLowerCase\<close>
  restricted to the basic Latin letters: \<open>A\<close> to \<open>Z\<close> go to \<open>a\<close> to \<open>z\<close>, every other
  character stays.
\<close>

definition lower_char :: "char \<Rightarrow> char" where
  "lower_char c =
     (let n = (of_char c :: nat)
      in if 65 \<le> n \<and> n \<le> 90 then char_of (n + 32) else c)"

definition toLowerCase :: "string \<Rightarrow> string" where
  "toLowerCase s = map lower_char s"

text \<open>
  The matrix is an array of \<open>len1 + 1\<close> rows of \<open>len2 + 1\<close> zeros; \<open>matrix[i][j] = v\<close>
  replaces one cell of one row.
\<close>

definition init_matrix :: "nat \<Rightarrow> nat \<Rightarrow> nat list list" where
  "init_matrix len1 len2 = replicate (len1 + 1) (replicate (len2 + 1) 0)"

definition set_cell :: "nat list list \<Rightarrow> nat \<Rightarrow> nat \<Rightarrow> nat \<Rightarrow> nat list list" where
  "set_cell m i j v = m[i := (m ! i)[j := v]]"

text \<open>\<open>for (let i = 0; i <= len1; i++) matrix[i][0] = i;\<close>\<close>

definition fill_first_column :: "nat \<Rightarrow> nat list list \<Rightarrow> nat list list" where
  "fill_first_column len1 m = fold (\<lambda>i m. set_cell m i 0 i) [0..<len1 + 1] m"

text \<open>\<open>for (let j = 0; j <= len2; j++) matrix[0][j] = j;\<close>\<close>

definition fill_first_row :: "nat \<Rightarrow> nat list list \<Rightarrow> nat list list" where
  "fill_first_row len2 m = fold (\<lambda>j m. set_cell m 0 j j) [0..<len2 + 1] m"

text \<open>The body of the inner loop: one cell from its three neighbours.\<close>

definition fill_cell :: "'a list \<Rightarrow> 'a list \<Rightarrow> nat \<Rightarrow> nat \<Rightarrow> nat list list \<Rightarrow> nat list list" where
  "fill_cell str1 str2 i j m =
     (let cost = (if str1 ! (i - 1) = str2 ! (j - 1) then 0 else 1)
      in set_cell m i j
           (min (min (m ! (i - 1) ! j + 1) (m ! i ! (j - 1) + 1))
                (m ! (i - 1) ! (j - 1) + cost)))"

text \<open>\<open>for (let j = 1; j <= len2; j++) ...\<close> and \<open>for (let i = 1; i <= len1; i++) ...\<close>\<close>

definition fill_line :: "'a list \<Rightarrow> 'a list \<Rightarrow> nat \<Rightarrow> nat list list \<Rightarrow> nat list list" where
  "fill_line str1 str2 i m = fold (fill_cell str1 str2 i) [1..<length str2 + 1] m"

definition fill_matrix :: "'a list \<Rightarrow> 'a list \<Rightarrow> nat list list \<Rightarrow> nat list list" where
  "fill_matrix str1 str2 m = fold (fill_line str1 str2) [1..<length str1 + 1] m"

text \<open>The matrix as it stands when the loops are done, on the lower-cased strings.\<close>

definition distance_matrix :: "'a list \<Rightarrow> 'a list \<Rightarrow> nat list list" where
  "distance_matrix str1 str2 =
     fill_matrix str1 str2
       (fill_first_row (length str2)
          (fill_first_column (length str1)
             (init_matrix (length str1) (length str2))))"

definition calculateSimilarity :: "string \<Rightarrow> string \<Rightarrow> jsnum" where
  "calculateSimilarity str1 str2 =
     (let s1 = toLowerCase str1;
          s2 = toLowerCase str2;
          len1 = length s1;
          len2 = length s2;
          matrix = distance_matrix s1 s2;
          distance = matrix ! len1 ! len2;
          maxLen = max len1 len2
      in js_one_minus (js_div distance maxLen))"

subsection \<open>The scorer as the engine runs it\<close>

text \<open>
  A string is the list of its UTF-16 code units, a code unit a natural number below 65536.
  \<open>utf16\<close> gives the code units of a literal of ASCII characters.
\<close>

definition utf16 :: "string \<Rightarrow> nat list" where
  "utf16 s = map of_char s"

text \<open>
  Two built-in functions of the engine are parameters of the model: \<open>toLowerCase\<close>, which
  follows the Unicode case mappings and may change the length of a string, and the
  conversion of a string to a number.
\<close>

record builtins =
  lowerCase :: "nat list \<Rightarrow> nat list"
  stringToNumber :: "nat list \<Rightarrow> jsnum"

definition calculateSimilarity_js :: "builtins \<Rightarrow> nat list \<Rightarrow> nat list \<Rightarrow> jsnum" where
  "calculateSimilarity_js js str1 str2 =
     (let s1 = lowerCase js str1;
          s2 = lowerCase js str2;
          len1 = length s1;
          len2 = length s2;
          matrix = distance_matrix s1 s2;
          distance = matrix ! len1 ! len2;
          maxLen = max len1 len2
      in double_one_minus (double_div distance maxLen))"

section \<open>Candidate accounts, options and upstream responses\<close>

record ImpersonatingAccount =
  name :: "nat list"
  description :: "nat list option"
  url :: "nat list"

text \<open>
  The body of a request is JSON that no code validates, so the three numeric options can
  hold any JSON value: \<open>null\<close>, a boolean, a number, a string, or an array or object, which
  is given by the string that its conversion to a primitive value yields.
\<close>

datatype json = JNull | JBool bool | JNum rat | JStr "nat list" | JStructured "nat list"

record CrawlOptions =
  keyword :: "nat list"
  limit :: "json option"
  throttleMs :: "json option"
  fuzzyThreshold :: "json option"

text \<open>
  A default in a destructuring pattern (\<open>fuzzyThreshold = 0.7\<close>, \<open>data.data || []\<close> on
  an array) replaces an absent value only.
\<close>

definition default_to :: "'a option \<Rightarrow> 'a \<Rightarrow> 'a" where
  "default_to v d = (case v of None \<Rightarrow> d | Some x \<Rightarrow> x)"

text \<open>
  \<open>similarity >= fuzzyThreshold\<close>: the threshold is converted to a number, the score is
  one already. A number of the body is given by the rational that its double denotes.
\<close>

definition to_number :: "builtins \<Rightarrow> json \<Rightarrow> jsnum" where
  "to_number js v =
     (case v of
        JNull \<Rightarrow> Num 0
      | JBool b \<Rightarrow> Num (if b then 1 else 0)
      | JNum q \<Rightarrow> Num q
      | JStr s \<Rightarrow> stringToNumber js s
      | JStructured s \<Rightarrow> stringToNumber js s)"

definition at_least :: "builtins \<Rightarrow> jsnum \<Rightarrow> json \<Rightarrow> bool" where
  "at_least js x v = js_ge x (to_number js v)"

text \<open>\<open>s.includes(t)\<close>: \<open>t\<close> occurs in \<open>s\<close> as a contiguous substring.\<close>

fun startsWith :: "nat list \<Rightarrow> nat list \<Rightarrow> bool" where
  "startsWith s [] = True"
| "startsWith [] (d # t) = False"
| "startsWith (c # s) (d # t) = (c = d \<and> startsWith s t)"

fun includes_str :: "nat list \<Rightarrow> nat list \<Rightarrow> bool" where
  "includes_str [] t = (t = [])"
| "includes_str (c # s) t = (startsWith (c # s) t \<or> includes_str s t)"

text \<open>
  \<open>description && description.toLowerCase().includes(keyword.toLowerCase())\<close>: an absent
  or empty description is falsy and ends the test.
\<close>

definition mentions :: "builtins \<Rightarrow> nat list option \<Rightarrow> nat list \<Rightarrow> bool" where
  "mentions js d kw =
     (case d of None \<Rightarrow> False
      | Some descr \<Rightarrow>
          descr \<noteq> [] \<and> includes_str (lowerCase js descr) (lowerCase js kw))"

text \<open>
  \<open>s.trim()\<close> removes the white space and line terminator code units from both ends:
  tab, line feed, vertical tab, form feed, carriage return, space, no-break space, the
  Unicode space separators, line and paragraph separator, and the byte order mark.
\<close>

definition is_space :: "nat \<Rightarrow> bool" where
  "is_space c =
     (c \<in> {9, 10, 11, 12, 13, 32, 160, 5760, 8232, 8233, 8239, 8287, 12288, 65279}
      \<or> (8192 \<le> c \<and> c \<le> 8202))"

definition trim :: "nat list \<Rightarrow> nat list" where
  "trim s = rev (dropWhile is_space (rev (dropWhile is_space s)))"

text \<open>
  What a \<open>fetch\<close> can come to: the promise rejects (transport error), the response has a
  non-success status, reading the body (\<open>json()\<close>, \<open>text()\<close>) rejects, or the body is read.
  The regular expressions that pick fields out of a page are outside the model: a page
  is given as the list of matches they produce, in order. A payload has the shape the
  code destructures. The address requested and the delays
  (\<open>await setTimeout(throttleMs)\<close>) are not part of the model: \<open>limit\<close> and \<open>throttleMs\<close>
  are carried in the options and read by no definition below.
\<close>

datatype 'a fetched = Rejects | NotOk | BodyRejects | Body 'a

datatype error = TransportError | BadStatus | ParseError

text \<open>
  \<open>const response = await fetch(url); if (!response.ok) throw ...; await response.json()\<close>
\<close>

definition read_body :: "'a fetched \<Rightarrow> error + 'a" where
  "read_body response =
     (case response of
        Rejects \<Rightarrow> Inl TransportError
      | NotOk \<Rightarrow> Inl BadStatus
      | BodyRejects \<Rightarrow> Inl ParseError
      | Body b \<Rightarrow> Inr b)"

text \<open>\<open>try { ... } catch (error) { ... }\<close>\<close>

definition try_catch :: "error + 'a \<Rightarrow> (error \<Rightarrow> error + 'a) \<Rightarrow> error + 'a" where
  "try_catch body handler = (case body of Inl e \<Rightarrow> handler e | Inr r \<Rightarrow> Inr r)"

text \<open>The sources a search can call, for the record of which ones it did call.\<close>

datatype source = Api | NitterScraper | DirectScraper | PageScraper

text \<open>
  The request body of the search endpoints, and their replies: the JSON object with the
  keyword, the count and the results, or status 400, or status 500. The keyword is taken
  to be a string when it is present.
\<close>

record search_request =
  request_keyword :: "nat list option"
  request_limit :: "json option"
  request_throttleMs :: "json option"
  request_fuzzyThreshold :: "json option"

datatype reply = SearchResults "nat list" nat "ImpersonatingAccount list" | BadRequest | ServerError

text \<open>
  \<open>limit || 100\<close>: the left operand is falsy when it is absent, \<open>null\<close>, \<open>false\<close>, the
  number zero or the empty string; every other value is truthy and is the result.
\<close>

definition falsy :: "json \<Rightarrow> bool" where
  "falsy v =
     (case v of
        JNull \<Rightarrow> True
      | JBool b \<Rightarrow> \<not> b
      | JNum q \<Rightarrow> q = 0
      | JStr s \<Rightarrow> s = []
      | JStructured s \<Rightarrow> False)"

definition or_else :: "json option \<Rightarrow> json \<Rightarrow> json" where
  "or_else v d = (case v of None \<Rightarrow> d | Some x \<Rightarrow> if falsy x then d else x)"

section \<open>Twitter (index.ts)\<close>

datatype twitter_user =
  TwitterUser (user_name: "nat list") (username: "nat list") (user_description: "nat list option")

text \<open>The loop over \<open>data.data || []\<close> of \<open>searchTwitterAccountsViaAPI\<close>.\<close>

fun twitter_user_loop ::
  "builtins \<Rightarrow> nat list \<Rightarrow> json \<Rightarrow> twitter_user list \<Rightarrow> ImpersonatingAccount list
     \<Rightarrow> ImpersonatingAccount list"
where
  "twitter_user_loop js kw threshold [] results = results"
| "twitter_user_loop js kw threshold (user # users) results =
     (let userUrl = utf16 ''https://twitter.com/'' @ username user;
          nameSimilarity = calculateSimilarity_js js (user_name user) kw;
          usernameSimilarity = calculateSimilarity_js js (username user) kw
      in if at_least js nameSimilarity threshold \<or> at_least js usernameSimilarity threshold
         then twitter_user_loop js kw threshold users
                (results @ [\<lparr>name = user_name user, description = user_description user,
                              url = userUrl\<rparr>])
         else if mentions js (user_description user) kw
         then twitter_user_loop js kw threshold users
                (results @ [\<lparr>name = user_name user, description = user_description user,
                              url = userUrl\<rparr>])
         else twitter_user_loop js kw threshold users results)"

definition searchTwitterAccountsViaAPI ::
  "builtins \<Rightarrow> CrawlOptions \<Rightarrow> twitter_user list option fetched
     \<Rightarrow> error + ImpersonatingAccount list"
where
  "searchTwitterAccountsViaAPI js options response =
     (let threshold = default_to (fuzzyThreshold options) (JNum seven_tenths)
      in try_catch
           (case read_body response of
              Inl e \<Rightarrow> Inl e
            | Inr data \<Rightarrow>
                Inr (twitter_user_loop js (keyword options) threshold (default_to data []) []))
           (\<lambda>e. Inr []))"

text \<open>
  The loop over the matches of \<open>userPattern\<close> in the Nitter page: a match is the three
  groups (user name, display name, description).
\<close>

fun nitter_loop ::
  "builtins \<Rightarrow> nat list \<Rightarrow> json \<Rightarrow> (nat list \<times> nat list \<times> nat list) list
     \<Rightarrow> ImpersonatingAccount list \<Rightarrow> ImpersonatingAccount list"
where
  "nitter_loop js kw threshold [] results = results"
| "nitter_loop js kw threshold ((m1, m2, m3) # matches) results =
     (let nm = trim m2;
          descr = trim m3;
          nameSimilarity = calculateSimilarity_js js nm kw;
          usernameSimilarity = calculateSimilarity_js js m1 kw
      in if at_least js nameSimilarity threshold \<or> at_least js usernameSimilarity threshold
         then nitter_loop js kw threshold matches
                (results @ [\<lparr>name = nm, description = Some descr,
                              url = utf16 ''https://twitter.com/'' @ m1\<rparr>])
         else if mentions js (Some descr) kw
         then nitter_loop js kw threshold matches
                (results @ [\<lparr>name = nm, description = Some descr,
                              url = utf16 ''https://twitter.com/'' @ m1\<rparr>])
         else nitter_loop js kw threshold matches results)"

definition scrapeTwitterResults ::
  "builtins \<Rightarrow> CrawlOptions \<Rightarrow> (nat list \<times> nat list \<times> nat list) list fetched
     \<Rightarrow> error + ImpersonatingAccount list"
where
  "scrapeTwitterResults js options response =
     (let threshold = default_to (fuzzyThreshold options) (JNum seven_tenths)
      in try_catch
           (case read_body response of
              Inl e \<Rightarrow> Inl e
            | Inr matches \<Rightarrow> Inr (nitter_loop js (keyword options) threshold matches []))
           (\<lambda>e. Inr []))"

text \<open>
  The page of twitter.com: no script element matches, or its text is not JSON
  (\<open>JSON.parse\<close> throws), or it holds the user entities (none when the path is absent).
  \<open>user.name || ''\<close> and its siblings replace an absent field by the empty string.
\<close>

datatype direct_user =
  DirectUser (entity_name: "nat list option") (screen_name: "nat list option")
    (entity_description: "nat list option")

datatype direct_page = NoScriptData | InvalidJson | UserEntities "direct_user list"

fun direct_loop ::
  "builtins \<Rightarrow> nat list \<Rightarrow> json \<Rightarrow> direct_user list \<Rightarrow> ImpersonatingAccount list
     \<Rightarrow> ImpersonatingAccount list"
where
  "direct_loop js kw threshold [] results = results"
| "direct_loop js kw threshold (user # users) results =
     (let nm = default_to (entity_name user) [];
          uname = default_to (screen_name user) [];
          descr = default_to (entity_description user) [];
          nameSimilarity = calculateSimilarity_js js nm kw;
          usernameSimilarity = calculateSimilarity_js js uname kw
      in if at_least js nameSimilarity threshold \<or> at_least js usernameSimilarity threshold
            \<or> includes_str (lowerCase js descr) (lowerCase js kw)
         then direct_loop js kw threshold users
                (results @ [\<lparr>name = nm, description = Some descr,
                              url = utf16 ''https://twitter.com/'' @ uname\<rparr>])
         else direct_loop js kw threshold users results)"

definition scrapeDirectTwitterResults ::
  "builtins \<Rightarrow> CrawlOptions \<Rightarrow> direct_page fetched \<Rightarrow> error + ImpersonatingAccount list"
where
  "scrapeDirectTwitterResults js options response =
     (let threshold = default_to (fuzzyThreshold options) (JNum seven_tenths)
      in try_catch
           (case read_body response of
              Inl e \<Rightarrow> Inl e
            | Inr NoScriptData \<Rightarrow> Inr []
            | Inr InvalidJson \<Rightarrow> Inl ParseError
            | Inr (UserEntities users) \<Rightarrow>
                Inr (direct_loop js (keyword options) threshold users []))
           (\<lambda>e. Inr []))"

text \<open>The process configuration and the three upstream answers of one search.\<close>

record twitter_config =
  USE_API :: bool
  TWITTER_BEARER_TOKEN :: string

record twitter_upstream =
  users_search :: "twitter_user list option fetched"
  nitter_page :: "(nat list \<times> nat list \<times> nat list) list fetched"
  twitter_page :: "direct_page fetched"

text \<open>
  \<open>searchTwitterAccounts\<close>, returning with its result the sources it called, in order.
  The second part is the two scraping attempts that follow the API attempt.
\<close>

definition twitter_scrapers ::
  "builtins \<Rightarrow> source list \<Rightarrow> twitter_upstream \<Rightarrow> CrawlOptions
     \<Rightarrow> source list \<times> (error + ImpersonatingAccount list)"
where
  "twitter_scrapers js called up options =
     (case scrapeTwitterResults js options (nitter_page up) of
        Inr nitterResults \<Rightarrow>
          if length nitterResults > 0 then (called @ [NitterScraper], Inr nitterResults)
          else (called @ [NitterScraper, DirectScraper],
                scrapeDirectTwitterResults js options (twitter_page up))
      | Inl e \<Rightarrow>
          (called @ [NitterScraper, DirectScraper],
           scrapeDirectTwitterResults js options (twitter_page up)))"

definition searchTwitterAccounts ::
  "builtins \<Rightarrow> twitter_config \<Rightarrow> twitter_upstream \<Rightarrow> CrawlOptions
     \<Rightarrow> source list \<times> (error + ImpersonatingAccount list)"
where
  "searchTwitterAccounts js cfg up options =
     (if USE_API cfg \<and> TWITTER_BEARER_TOKEN cfg \<noteq> []
         \<and> TWITTER_BEARER_TOKEN cfg \<noteq> ''your_twitter_bearer_token_here''
      then (case searchTwitterAccountsViaAPI js options (users_search up) of
              Inr apiResults \<Rightarrow>
                if length apiResults > 0 then ([Api], Inr apiResults)
                else twitter_scrapers js [Api] up options
            | Inl e \<Rightarrow> twitter_scrapers js [Api] up options)
      else twitter_scrapers js [] up options)"

definition twitter_options :: "nat list \<Rightarrow> search_request \<Rightarrow> CrawlOptions" where
  "twitter_options kw body =
     \<lparr>keyword = kw,
      limit = Some (or_else (request_limit body) (JNum 100)),
      throttleMs = Some (or_else (request_throttleMs body) (JNum 2000)),
      fuzzyThreshold = Some (or_else (request_fuzzyThreshold body) (JNum seven_tenths))\<rparr>"

text \<open>
  The handler of \<open>/api/search\<close>; the request is \<open>None\<close> when its body is not JSON.
\<close>

definition twitter_api_search ::
  "builtins \<Rightarrow> twitter_config \<Rightarrow> twitter_upstream \<Rightarrow> search_request option
     \<Rightarrow> source list \<times> reply"
where
  "twitter_api_search js cfg up request =
     (case request of
        None \<Rightarrow> ([], ServerError)
      | Some body \<Rightarrow>
          (case request_keyword body of
             None \<Rightarrow> ([], BadRequest)
           | Some kw \<Rightarrow>
               if kw = [] then ([], BadRequest)
               else (case searchTwitterAccounts js cfg up (twitter_options kw body) of
                       (called, Inl e) \<Rightarrow> (called, ServerError)
                     | (called, Inr results) \<Rightarrow>
                         (called, SearchResults kw (length results) results))))"

section \<open>Facebook\<close>

datatype facebook_page =
  FacebookPage (page_name: "nat list") (about: "nat list option") (page_link: "nat list")

datatype facebook_user = FacebookUser (profile_name: "nat list") (profile_link: "nat list")

record facebook_upstream =
  page_search :: "facebook_page list option fetched"
  user_search :: "facebook_user list option fetched"
  search_page :: "(nat list \<times> nat list) list fetched"

fun facebook_page_loop ::
  "builtins \<Rightarrow> nat list \<Rightarrow> json \<Rightarrow> facebook_page list \<Rightarrow> ImpersonatingAccount list
     \<Rightarrow> ImpersonatingAccount list"
where
  "facebook_page_loop js kw threshold [] results = results"
| "facebook_page_loop js kw threshold (item # items) results =
     (let similarity = calculateSimilarity_js js (page_name item) kw
      in if at_least js similarity threshold
         then facebook_page_loop js kw threshold items
                (results @ [\<lparr>name = page_name item, description = about item,
                              url = page_link item\<rparr>])
         else facebook_page_loop js kw threshold items results)"

fun facebook_user_loop ::
  "builtins \<Rightarrow> nat list \<Rightarrow> json \<Rightarrow> facebook_user list \<Rightarrow> ImpersonatingAccount list
     \<Rightarrow> ImpersonatingAccount list"
where
  "facebook_user_loop js kw threshold [] results = results"
| "facebook_user_loop js kw threshold (user # users) results =
     (let similarity = calculateSimilarity_js js (profile_name user) kw
      in if at_least js similarity threshold
         then facebook_user_loop js kw threshold users
                (results @ [\<lparr>name = profile_name user, description = None,
                              url = profile_link user\<rparr>])
         else facebook_user_loop js kw threshold users results)"

text \<open>
  \<open>searchFacebookAccounts\<close>: a non-success status of the second request is logged and
  the page results stand; a rejection of it, or of reading its body, is caught by the
  \<open>catch\<close> of the whole function.
\<close>

definition searchFacebookAccounts ::
  "builtins \<Rightarrow> CrawlOptions \<Rightarrow> facebook_upstream \<Rightarrow> error + ImpersonatingAccount list"
where
  "searchFacebookAccounts js options up =
     (let threshold = default_to (fuzzyThreshold options) (JNum seven_tenths)
      in try_catch
           (case read_body (page_search up) of
              Inl e \<Rightarrow> Inl e
            | Inr data \<Rightarrow>
                (let results =
                       facebook_page_loop js (keyword options) threshold (default_to data []) []
                 in case user_search up of
                      Rejects \<Rightarrow> Inl TransportError
                    | NotOk \<Rightarrow> Inr results
                    | BodyRejects \<Rightarrow> Inl ParseError
                    | Body userData \<Rightarrow>
                        Inr (facebook_user_loop js (keyword options) threshold
                               (default_to userData []) results)))
           (\<lambda>e. Inr []))"

text \<open>
  \<open>scrapeFacebookResults(keyword, throttleMs)\<close>: a match of \<open>pageRegex\<close> is the pair of
  the address and the name; the comparison is with the literal \<open>0.7\<close>.
\<close>

fun facebook_match_loop ::
  "builtins \<Rightarrow> nat list \<Rightarrow> (nat list \<times> nat list) list \<Rightarrow> ImpersonatingAccount list
     \<Rightarrow> ImpersonatingAccount list"
where
  "facebook_match_loop js kw [] results = results"
| "facebook_match_loop js kw ((m1, m2) # matches) results =
     (let similarity = calculateSimilarity_js js m2 kw
      in if js_ge similarity (Num seven_tenths)
         then facebook_match_loop js kw matches
                (results @ [\<lparr>name = m2, description = None, url = m1\<rparr>])
         else facebook_match_loop js kw matches results)"

definition scrapeFacebookResults ::
  "builtins \<Rightarrow> nat list \<Rightarrow> facebook_upstream \<Rightarrow> error + ImpersonatingAccount list"
where
  "scrapeFacebookResults js kw up =
     try_catch
       (case read_body (search_page up) of
          Inl e \<Rightarrow> Inl e
        | Inr matches \<Rightarrow> Inr (facebook_match_loop js kw matches []))
       (\<lambda>e. Inr [])"

definition facebook_options :: "nat list \<Rightarrow> search_request \<Rightarrow> CrawlOptions" where
  "facebook_options kw body =
     \<lparr>keyword = kw,
      limit = Some (or_else (request_limit body) (JNum 25)),
      throttleMs = Some (or_else (request_throttleMs body) (JNum 1000)),
      fuzzyThreshold = Some (or_else (request_fuzzyThreshold body) (JNum seven_tenths))\<rparr>"

definition facebook_api_search ::
  "builtins \<Rightarrow> facebook_upstream \<Rightarrow> search_request option \<Rightarrow> source list \<times> reply"
where
  "facebook_api_search js up request =
     (case request of
        None \<Rightarrow> ([], ServerError)
      | Some body \<Rightarrow>
          (case request_keyword body of
             None \<Rightarrow> ([], BadRequest)
           | Some kw \<Rightarrow>
               if kw = [] then ([], BadRequest)
               else (case searchFacebookAccounts js (facebook_options kw body) up of
                       Inl e \<Rightarrow> ([Api], ServerError)
                     | Inr results \<Rightarrow>
                         if length results = 0
                         then (case scrapeFacebookResults js kw up of
                                 Inl e \<Rightarrow> ([Api, PageScraper], ServerError)
                               | Inr scraped \<Rightarrow>
                                   ([Api, PageScraper],
                                    SearchResults kw (length scraped) scraped))
                         else ([Api], SearchResults kw (length results) results))))"

section \<open>YouTube\<close>

text \<open>
  The third file declares \<open>const channelUrl\<close> twice in the block of the loop of
  \<open>searchYouTubeChannels\<close> (the address of the channel page, then the address of the
  details request). A second \<open>const\<close> declaration of a name in one block is a syntax
  error, so the file is rejected when it is loaded and none of its functions runs. It has
  no model here.
\<close>

section \<open>Upstream failures\<close>

text \<open>A request has failed when no body was read from it.\<close>

definition failed :: "'a fetched \<Rightarrow> bool" where
  "failed response = (case response of Body b \<Rightarrow> False | _ \<Rightarrow> True)"

section \<open>Example requests and upstream answers\<close>

text \<open>
  The built-in functions on the strings of the examples: \<open>toLowerCase\<close> maps the basic
  Latin capital letters to the small ones and the capital I with dot above (U+0130) to a
  small i followed by the combining dot above (U+0307), as the Unicode case mappings do;
  the conversion to a number is given on the empty string and on strings of decimal
  digits. The examples use no other letters and convert no other strings.
\<close>

definition sample_lower_unit :: "nat \<Rightarrow> nat list" where
  "sample_lower_unit c =
     (if 65 \<le> c \<and> c \<le> 90 then [c + 32] else if c = 304 then [105, 775] else [c])"

definition sample_lowerCase :: "nat list \<Rightarrow> nat list" where
  "sample_lowerCase s = concat (map sample_lower_unit s)"

definition sample_stringToNumber :: "nat list \<Rightarrow> jsnum" where
  "sample_stringToNumber s =
     (if list_all (\<lambda>c. 48 \<le> c \<and> c \<le> 57) s
      then Num (rat_of_nat (fold (\<lambda>c n. 10 * n + (c - 48)) s 0))
      else NaN)"

definition sample_builtins :: builtins where
  "sample_builtins = \<lparr>lowerCase = sample_lowerCase, stringToNumber = sample_stringToNumber\<rparr>"

text \<open>The doubles that \<open>0.9\<close> and \<open>0.2\<close> denote.\<close>

definition nine_tenths :: rat where
  "nine_tenths = 8106479329266893 / 9007199254740992"

definition one_fifth :: rat where
  "one_fifth = 3602879701896397 / 18014398509481984"

text \<open>
  A request for the keyword "acme" with no option set, and upstream answers in which one
  source finds the account Acme and the sources before it fail or find nothing.
\<close>

definition acme_options :: CrawlOptions where
  "acme_options =
     \<lparr>keyword = utf16 ''acme'', limit = None, throttleMs = None, fuzzyThreshold = None\<rparr>"

definition acme_account :: ImpersonatingAccount where
  "acme_account =
     \<lparr>name = utf16 ''Acme'', description = None, url = utf16 ''https://twitter.com/acme_hq''\<rparr>"

definition api_on :: twitter_config where
  "api_on = \<lparr>USE_API = True, TWITTER_BEARER_TOKEN = ''token''\<rparr>"

definition api_off :: twitter_config where
  "api_off = \<lparr>USE_API = False, TWITTER_BEARER_TOKEN = ''your_twitter_bearer_token_here''\<rparr>"

definition twitter_api_answers :: twitter_upstream where
  "twitter_api_answers =
     \<lparr>users_search = Body (Some [TwitterUser (utf16 ''Acme'') (utf16 ''acme_hq'') None]),
      nitter_page = Rejects, twitter_page = Rejects\<rparr>"

definition twitter_nitter_answers :: twitter_upstream where
  "twitter_nitter_answers =
     \<lparr>users_search = NotOk,
      nitter_page = Body [(utf16 ''acme_hq'', utf16 '' Acme '', [])],
      twitter_page = Rejects\<rparr>"

definition twitter_direct_answers :: twitter_upstream where
  "twitter_direct_answers =
     \<lparr>users_search = Rejects,
      nitter_page = Body [],
      twitter_page =
        Body (UserEntities [DirectUser (Some (utf16 ''Acme'')) (Some (utf16 ''acme_hq'')) None])\<rparr>"

definition unreachable :: twitter_upstream where
  "unreachable = \<lparr>users_search = Rejects, nitter_page = NotOk, twitter_page = BodyRejects\<rparr>"

definition acme_request :: search_request where
  "acme_request =
     \<lparr>request_keyword = Some (utf16 ''acme''), request_limit = None,
      request_throttleMs = None, request_fuzzyThreshold = None\<rparr>"

definition facebook_api_answers :: facebook_upstream where
  "facebook_api_answers =
     \<lparr>page_search =
        Body (Some [FacebookPage (utf16 ''Acme'') None (utf16 ''https://www.facebook.com/acme'')]),
      user_search = NotOk,
      search_page = Rejects\<rparr>"

definition facebook_scraper_answers :: facebook_upstream where
  "facebook_scraper_answers =
     \<lparr>page_search = NotOk,
      user_search = NotOk,
      search_page = Body [(utf16 ''https://www.facebook.com/acme'', utf16 ''Acme'')]\<rparr>"

text \<open>
  A Facebook page that only mentions the keyword; options with threshold 0.5 and with
  threshold 0.2; a request with threshold 0.9 and a Facebook answer where only the
  scraper finds a page, named Acne; a request whose threshold is the string "0" and a
  Facebook answer with a page whose name shares no letter with the keyword; a Facebook
  answer where a page and a user have the same address.
\<close>

definition facebook_description_only :: facebook_upstream where
  "facebook_description_only =
     \<lparr>page_search =
        Body (Some [FacebookPage (utf16 ''Shop'') (Some (utf16 ''the acme shop''))
                      (utf16 ''https://www.facebook.com/shop'')]),
      user_search = Body (Some []),
      search_page = Rejects\<rparr>"

definition half_options :: CrawlOptions where
  "half_options =
     \<lparr>keyword = utf16 ''ab'', limit = None, throttleMs = None,
      fuzzyThreshold = Some (JNum (1 / 2))\<rparr>"

definition fifth_options :: CrawlOptions where
  "fifth_options =
     \<lparr>keyword = utf16 ''abcde'', limit = None, throttleMs = None,
      fuzzyThreshold = Some (JNum one_fifth)\<rparr>"

definition strict_request :: search_request where
  "strict_request =
     \<lparr>request_keyword = Some (utf16 ''acme''), request_limit = None,
      request_throttleMs = None, request_fuzzyThreshold = Some (JNum nine_tenths)\<rparr>"

definition facebook_near_miss :: facebook_upstream where
  "facebook_near_miss =
     \<lparr>page_search = Body (Some []),
      user_search = Body (Some []),
      search_page = Body [(utf16 ''https://www.facebook.com/acne'', utf16 ''Acne'')]\<rparr>"

definition zero_string_request :: search_request where
  "zero_string_request =
     \<lparr>request_keyword = Some (utf16 ''acme''), request_limit = None,
      request_throttleMs = None, request_fuzzyThreshold = Some (JStr (utf16 ''0''))\<rparr>"

definition facebook_far_answers :: facebook_upstream where
  "facebook_far_answers =
     \<lparr>page_search =
        Body (Some [FacebookPage (utf16 ''Shop'') None (utf16 ''https://www.facebook.com/shop'')]),
      user_search = Body (Some []),
      search_page = Rejects\<rparr>"


section \<open>The edit distance of the specification\<close>

text \<open>
  The Levenshtein distance as the specification words it: the cost of the cheapest way
  from one string to the other, where an insertion, a deletion and a substitution cost 1
  each. \<open>levenshtein\<close> is its recursive definition on the heads of the two strings.
\<close>

fun levenshtein :: "'a list \<Rightarrow> 'a list \<Rightarrow> nat" where
  "levenshtein [] ys = length ys"
| "levenshtein xs [] = length xs"
| "levenshtein (x # xs) (y # ys) =
     min (min (levenshtein xs (y # ys) + 1) (levenshtein (x # xs) ys + 1))
         (levenshtein xs ys + (if x = y then 0 else 1))"

text \<open>
  \<open>edits xs ys n\<close>: \<open>xs\<close> becomes \<open>ys\<close> by going through it from left to right, keeping,
  substituting or deleting a character, or inserting one, with \<open>n\<close> operations that are
  not a keep.
\<close>

inductive edits :: "'a list \<Rightarrow> 'a list \<Rightarrow> nat \<Rightarrow> bool" where
  Done: "edits [] [] 0"
| Keep: "edits xs ys n \<Longrightarrow> edits (x # xs) (x # ys) n"
| Substitute: "edits xs ys n \<Longrightarrow> edits (x # xs) (y # ys) (Suc n)"
| Delete: "edits xs ys n \<Longrightarrow> edits (x # xs) ys (Suc n)"
| Insert: "edits xs ys n \<Longrightarrow> edits xs (y # ys) (Suc n)"

code_pred edits .

text \<open>
  For the proof that the loops compute it: the shape of the matrix, the distance of two
  prefixes, and how far the matrix is filled when the loops stand at row \<open>i\<close>, column \<open>j\<close>.
\<close>

definition matrix_shape :: "nat \<Rightarrow> nat \<Rightarrow> nat list list \<Rightarrow> bool" where
  "matrix_shape len1 len2 m \<longleftrightarrow>
     length m = Suc len1 \<and> (\<forall>i\<le>len1. length (m ! i) = Suc len2)"

definition prefix_distance :: "'a list \<Rightarrow> 'a list \<Rightarrow> nat \<Rightarrow> nat \<Rightarrow> nat" where
  "prefix_distance str1 str2 i j = levenshtein (take i str1) (take j str2)"

definition filled_upto :: "'a list \<Rightarrow> 'a list \<Rightarrow> nat \<Rightarrow> nat \<Rightarrow> nat list list \<Rightarrow> bool" where
  "filled_upto str1 str2 i j m \<longleftrightarrow>
     matrix_shape (length str1) (length str2) m \<and>
     (\<forall>i'\<le>length str1. \<forall>j'\<le>length str2.
        (i' = 0 \<or> j' = 0 \<or> i' < i \<or> (i' = i \<and> j' < j)) \<longrightarrow>
        m ! i' ! j' = prefix_distance str1 str2 i' j')"

section \<open>Properties of the scorer\<close>

text \<open>
  C1. The claim is that the similarity of two empty strings is defined and equals 1.0.
  The code has no guard for this input: the distance is 0, the longer length is 0, and
  \<open>1 - 0 / 0\<close> is NaN.
\<close>

theorem calculateSimilarity_empty_is_NaN:
  "calculateSimilarity [] [] = NaN \<and> calculateSimilarity [] [] \<noteq> Num 1"
  by (simp add: calculateSimilarity_def toLowerCase_def distance_matrix_def fill_matrix_def
      fill_first_row_def fill_first_column_def init_matrix_def set_cell_def js_div_def)

subsection \<open>The recursive distance is the least number of edits\<close>

lemma levenshtein_Nil2 [simp]: "levenshtein xs [] = length xs"
  by (cases xs) simp_all

lemma edits_Nil1: "edits [] ys (length ys)"
  by (induction ys) (auto intro: edits.intros)

lemma edits_Nil2: "edits xs [] (length xs)"
  by (induction xs) (auto intro: edits.intros)

lemma levenshtein_edits: "edits xs ys (levenshtein xs ys)"
proof (induction xs ys rule: levenshtein.induct)
  case (1 ys)
  show ?case by (simp add: edits_Nil1)
next
  case (2 v va)
  show ?case using edits_Nil2 [of "v # va"] by simp
next
  case (3 x xs y ys)
  let ?a = "levenshtein xs (y # ys) + 1"
  let ?b = "levenshtein (x # xs) ys + 1"
  let ?c = "levenshtein xs ys + (if x = y then 0 else 1)"
  have a: "edits (x # xs) (y # ys) ?a" using "3.IH"(1) by (auto intro: edits.Delete)
  have b: "edits (x # xs) (y # ys) ?b" using "3.IH"(2) by (auto intro: edits.Insert)
  have c: "edits (x # xs) (y # ys) ?c" using "3.IH"(3) by (auto intro: edits.Keep edits.Substitute)
  have "levenshtein (x # xs) (y # ys) = ?a \<or> levenshtein (x # xs) (y # ys) = ?b
        \<or> levenshtein (x # xs) (y # ys) = ?c"
    unfolding levenshtein.simps min_def by presburger
  with a b c show ?case by metis
qed

lemma levenshtein_delete: "levenshtein (x # xs) ys \<le> Suc (levenshtein xs ys)"
  by (cases ys) simp_all

lemma levenshtein_insert: "levenshtein xs (y # ys) \<le> Suc (levenshtein xs ys)"
  by (cases xs) simp_all

lemma levenshtein_subst: "levenshtein (x # xs) (y # ys) \<le> Suc (levenshtein xs ys)"
  by (simp add: min_def)

lemma levenshtein_keep: "levenshtein (x # xs) (x # ys) \<le> levenshtein xs ys"
  by simp

lemma levenshtein_least: "edits xs ys n \<Longrightarrow> levenshtein xs ys \<le> n"
proof (induction rule: edits.induct)
  case Done
  show ?case by simp
next
  case (Keep xs ys n x)
  then show ?case using levenshtein_keep [of x xs ys] by linarith
next
  case (Substitute xs ys n x y)
  then show ?case using levenshtein_subst [of x xs y ys] by linarith
next
  case (Delete xs ys n x)
  then show ?case using levenshtein_delete [of x xs ys] by linarith
next
  case (Insert xs ys n y)
  then show ?case using levenshtein_insert [of xs y ys] by linarith
qed

lemma levenshtein_sym: "levenshtein xs ys = levenshtein ys xs"
  by (induction xs ys rule: levenshtein.induct) (simp_all add: min.commute min.left_commute eq_commute)

lemma min3_exchange_gen:
  fixes p1 p2 p3 q1 q2 q3 r1 r2 r3 c d e :: nat
  shows "min (min (min (min (p1 + e) (p2 + e)) (p3 + c) + e)
                  (min (min (q1 + e) (q2 + e)) (q3 + c) + e))
             (min (min (r1 + e) (r2 + e)) (r3 + c) + d)
       = min (min (min (min (p1 + e) (q1 + e)) (r1 + d) + e)
                  (min (min (p2 + e) (q2 + e)) (r2 + d) + e))
             (min (min (p3 + e) (q3 + e)) (r3 + d) + c)"
  by (simp only: min_add_distrib_left min_add_distrib_right min.assoc min.commute min.left_commute
      add.assoc add.commute add.left_commute)

lemmas min3_exchange = min3_exchange_gen [where e = 1]

lemma levenshtein_single_snoc:
  "levenshtein [x] (ys @ [y]) =
     min (min (levenshtein [] (ys @ [y]) + 1) (levenshtein [x] ys + 1))
         (levenshtein [] ys + (if x = y then 0 else 1))"
proof (induction ys)
  case Nil
  show ?case by simp
next
  case (Cons b ys)
  let ?c = "if x = y then 0 else (1::nat)"
  let ?d = "if x = b then 0 else (1::nat)"
  have "levenshtein [x] ((b # ys) @ [y]) =
          min (min (length ys + 3) (levenshtein [x] (ys @ [y]) + 1)) (length ys + 1 + ?d)"
    by simp
  also have "\<dots> = min (min (length ys + 3)
                        (min (min (length ys + 2) (levenshtein [x] ys + 1)) (length ys + ?c) + 1))
                   (length ys + 1 + ?d)"
    using Cons.IH by simp
  also have "\<dots> = min (min (length ys + 3)
                        (min (min (length ys + 2) (levenshtein [x] ys + 1)) (length ys + ?d) + 1))
                   (length ys + 1 + ?c)"
    by (simp add: min_add_distrib_left min.assoc min.commute min.left_commute
      add.assoc add.commute add.left_commute del: One_nat_def)
  also have "\<dots> = min (min (levenshtein [] ((b # ys) @ [y]) + 1) (levenshtein [x] (b # ys) + 1))
         (levenshtein [] (b # ys) + ?c)"
    by simp
  finally show ?case .
qed

lemma levenshtein_snoc_single:
  "levenshtein (xs @ [x]) [y] =
     min (min (levenshtein xs [y] + 1) (levenshtein (xs @ [x]) [] + 1))
         (levenshtein xs [] + (if x = y then 0 else 1))"
proof -
  have "levenshtein (xs @ [x]) [y] = levenshtein [y] (xs @ [x])"
    by (rule levenshtein_sym)
  also have "\<dots> = min (min (levenshtein [] (xs @ [x]) + 1) (levenshtein [y] xs + 1))
         (levenshtein [] xs + (if y = x then 0 else 1))"
    by (rule levenshtein_single_snoc)
  also have "\<dots> = min (min (levenshtein xs [y] + 1) (levenshtein (xs @ [x]) [] + 1))
         (levenshtein xs [] + (if x = y then 0 else 1))"
    by (simp add: levenshtein_sym [of "[y]" xs] min.commute eq_commute)
  finally show ?thesis .
qed

lemma levenshtein_snoc:
  "levenshtein (xs @ [x]) (ys @ [y]) =
     min (min (levenshtein xs (ys @ [y]) + 1) (levenshtein (xs @ [x]) ys + 1))
         (levenshtein xs ys + (if x = y then 0 else 1))"
proof (induction xs ys rule: levenshtein.induct)
  case (1 ys)
  show ?case using levenshtein_single_snoc [of x ys y] by simp
next
  case (2 v va)
  show ?case using levenshtein_snoc_single [of "v # va" x y] by simp
next
  case (3 a xs b ys)
  let ?c = "if x = y then 0 else (1::nat)"
  let ?d = "if a = b then 0 else (1::nat)"
  have L1: "levenshtein (xs @ [x]) (b # ys @ [y]) =
      min (min (levenshtein xs (b # ys @ [y]) + 1) (levenshtein (xs @ [x]) (b # ys) + 1))
          (levenshtein xs (b # ys) + ?c)"
    using "3.IH"(1) by simp
  have L2: "levenshtein (a # xs @ [x]) (ys @ [y]) =
      min (min (levenshtein (a # xs) (ys @ [y]) + 1) (levenshtein (a # xs @ [x]) ys + 1))
          (levenshtein (a # xs) ys + ?c)"
    using "3.IH"(2) by simp
  have L3: "levenshtein (xs @ [x]) (ys @ [y]) =
      min (min (levenshtein xs (ys @ [y]) + 1) (levenshtein (xs @ [x]) ys + 1))
          (levenshtein xs ys + ?c)"
    using "3.IH"(3) by simp
  have "levenshtein ((a # xs) @ [x]) ((b # ys) @ [y]) =
      min (min (levenshtein (xs @ [x]) (b # ys @ [y]) + 1)
               (levenshtein (a # xs @ [x]) (ys @ [y]) + 1))
          (levenshtein (xs @ [x]) (ys @ [y]) + ?d)"
    by (simp only: append_Cons levenshtein.simps)
  also have "\<dots> =
      min (min (min (min (levenshtein xs (b # ys @ [y]) + 1) (levenshtein (a # xs) (ys @ [y]) + 1))
                    (levenshtein xs (ys @ [y]) + ?d) + 1)
               (min (min (levenshtein (xs @ [x]) (b # ys) + 1) (levenshtein (a # xs @ [x]) ys + 1))
                    (levenshtein (xs @ [x]) ys + ?d) + 1))
          (min (min (levenshtein xs (b # ys) + 1) (levenshtein (a # xs) ys + 1))
               (levenshtein xs ys + ?d) + ?c)"
    unfolding L1 L2 L3 by (rule min3_exchange)
  also have "\<dots> =
      min (min (levenshtein (a # xs) ((b # ys) @ [y]) + 1)
               (levenshtein ((a # xs) @ [x]) (b # ys) + 1))
          (levenshtein (a # xs) (b # ys) + ?c)"
    by (simp only: append_Cons levenshtein.simps)
  finally show ?case .
qed

subsection \<open>The loops fill the matrix with the distances of the prefixes\<close>

lemma init_matrix_shape: "matrix_shape len1 len2 (init_matrix len1 len2)"
proof -
  have "replicate (Suc len1) (replicate (Suc len2) (0::nat)) ! i = replicate (Suc len2) 0"
    if "i \<le> len1" for i
    using that by (intro nth_replicate) simp
  then show ?thesis
    by (simp add: matrix_shape_def init_matrix_def del: replicate.simps)
qed

lemma set_cell_shape:
  "matrix_shape len1 len2 m \<Longrightarrow> matrix_shape len1 len2 (set_cell m i j v)"
  by (cases "i < length m") (auto simp: matrix_shape_def set_cell_def nth_list_update)

lemma set_cell_nth:
  assumes "matrix_shape len1 len2 m" "i \<le> len1" "j \<le> len2" "i' \<le> len1"
  shows "set_cell m i j v ! i' ! j' = (if i' = i \<and> j' = j then v else m ! i' ! j')"
  using assms by (auto simp: matrix_shape_def set_cell_def nth_list_update)

lemma first_column_loop:
  assumes "matrix_shape len1 len2 m" "n \<le> Suc len1"
  shows "matrix_shape len1 len2 (fold (\<lambda>i m. set_cell m i 0 i) [0..<n] m) \<and>
         (\<forall>i<n. fold (\<lambda>i m. set_cell m i 0 i) [0..<n] m ! i ! 0 = i)"
  using assms(2)
proof (induction n)
  case 0
  show ?case using assms(1) by simp
next
  case (Suc n)
  let ?m = "fold (\<lambda>i m. set_cell m i 0 i) [0..<n] m"
  have sh: "matrix_shape len1 len2 ?m" and old: "\<forall>i<n. ?m ! i ! 0 = i"
    using Suc by simp_all
  have step: "fold (\<lambda>i m. set_cell m i 0 i) [0..<Suc n] m = set_cell ?m n 0 n"
    by simp
  have "\<forall>i<Suc n. set_cell ?m n 0 n ! i ! 0 = i"
    using old Suc.prems by (auto simp: set_cell_nth [OF sh] less_Suc_eq)
  then show ?case unfolding step using set_cell_shape [OF sh] by blast
qed

lemma first_row_loop:
  assumes "matrix_shape len1 len2 m" "n \<le> Suc len2" "\<forall>i\<le>len1. m ! i ! 0 = i"
  shows "matrix_shape len1 len2 (fold (\<lambda>j m. set_cell m 0 j j) [0..<n] m) \<and>
         (\<forall>i\<le>len1. fold (\<lambda>j m. set_cell m 0 j j) [0..<n] m ! i ! 0 = i) \<and>
         (\<forall>j<n. fold (\<lambda>j m. set_cell m 0 j j) [0..<n] m ! 0 ! j = j)"
  using assms(2)
proof (induction n)
  case 0
  show ?case using assms(1,3) by simp
next
  case (Suc n)
  let ?m = "fold (\<lambda>j m. set_cell m 0 j j) [0..<n] m"
  have sh: "matrix_shape len1 len2 ?m" and col: "\<forall>i\<le>len1. ?m ! i ! 0 = i"
    and old: "\<forall>j<n. ?m ! 0 ! j = j"
    using Suc by simp_all
  have step: "fold (\<lambda>j m. set_cell m 0 j j) [0..<Suc n] m = set_cell ?m 0 n n"
    by simp
  have c: "\<forall>i\<le>len1. set_cell ?m 0 n n ! i ! 0 = i"
    using col Suc.prems by (auto simp: set_cell_nth [OF sh])
  have r: "\<forall>j<Suc n. set_cell ?m 0 n n ! 0 ! j = j"
    using old Suc.prems by (auto simp: set_cell_nth [OF sh] less_Suc_eq)
  show ?case unfolding step using set_cell_shape [OF sh] c r by blast
qed

lemma prefix_distance_0 [simp]:
  "j \<le> length str2 \<Longrightarrow> prefix_distance str1 str2 0 j = j"
  "i \<le> length str1 \<Longrightarrow> prefix_distance str1 str2 i 0 = i"
  by (simp_all add: prefix_distance_def)

lemma prefix_distance_Suc:
  assumes "i < length str1" "j < length str2"
  shows "prefix_distance str1 str2 (Suc i) (Suc j) =
     min (min (prefix_distance str1 str2 i (Suc j) + 1) (prefix_distance str1 str2 (Suc i) j + 1))
         (prefix_distance str1 str2 i j + (if str1 ! i = str2 ! j then 0 else 1))"
  using assms by (simp only: prefix_distance_def take_Suc_conv_app_nth levenshtein_snoc)

lemma initial_filled:
  "filled_upto str1 str2 1 1
     (fill_first_row (length str2)
        (fill_first_column (length str1) (init_matrix (length str1) (length str2))))"
proof -
  let ?m0 = "init_matrix (length str1) (length str2)"
  let ?m1 = "fill_first_column (length str1) ?m0"
  let ?m2 = "fill_first_row (length str2) ?m1"
  have 1: "matrix_shape (length str1) (length str2) ?m1 \<and> (\<forall>i<Suc (length str1). ?m1 ! i ! 0 = i)"
    unfolding fill_first_column_def using first_column_loop [OF init_matrix_shape, of "Suc (length str1)" "length str1" "length str2"]
    by simp
  then have col: "\<forall>i\<le>length str1. ?m1 ! i ! 0 = i" by (simp add: less_Suc_eq_le)
  have 2: "matrix_shape (length str1) (length str2) ?m2 \<and> (\<forall>i\<le>length str1. ?m2 ! i ! 0 = i)
        \<and> (\<forall>j<Suc (length str2). ?m2 ! 0 ! j = j)"
    unfolding fill_first_row_def [of "length str2"]
    using first_row_loop [OF conjunct1 [OF 1] _ col, of "Suc (length str2)"] by simp
  then show ?thesis
    by (auto simp: filled_upto_def less_Suc_eq_le)
qed

lemma fill_cell_filled:
  assumes f: "filled_upto str1 str2 i j m"
    and i: "1 \<le> i" "i \<le> length str1" and j: "1 \<le> j" "j \<le> length str2"
  shows "filled_upto str1 str2 i (Suc j) (fill_cell str1 str2 i j m)"
proof -
  let ?D = "prefix_distance str1 str2"
  obtain i0 j0 where ij: "i = Suc i0" "j = Suc j0"
    using i(1) j(1) by (metis One_nat_def Suc_le_D)
  have sh: "matrix_shape (length str1) (length str2) m"
    using f by (simp add: filled_upto_def)
  have known: "\<And>i' j'. i' \<le> length str1 \<Longrightarrow> j' \<le> length str2 \<Longrightarrow>
      i' = 0 \<or> j' = 0 \<or> i' < i \<or> (i' = i \<and> j' < j) \<Longrightarrow> m ! i' ! j' = ?D i' j'"
    using f unfolding filled_upto_def by blast
  have a: "m ! i0 ! j = ?D i0 j" using known [of i0 j] i j ij by simp
  have b: "m ! i ! j0 = ?D i j0" using known [of i j0] i j ij by simp
  have c: "m ! i0 ! j0 = ?D i0 j0" using known [of i0 j0] i j ij by simp
  have new: "min (min (m ! (i - 1) ! j + 1) (m ! i ! (j - 1) + 1))
                 (m ! (i - 1) ! (j - 1) + (if str1 ! (i - 1) = str2 ! (j - 1) then 0 else 1))
             = ?D i j"
    using a b c i j ij prefix_distance_Suc [of i0 str1 j0 str2] by simp
  have cell: "fill_cell str1 str2 i j m = set_cell m i j (?D i j)"
    unfolding fill_cell_def Let_def new ..
  show ?thesis
    unfolding cell filled_upto_def
  proof (intro conjI allI impI)
    show "matrix_shape (length str1) (length str2) (set_cell m i j (?D i j))"
      by (rule set_cell_shape [OF sh])
  next
    fix i' j'
    assume b: "i' \<le> length str1" "j' \<le> length str2"
      and w: "i' = 0 \<or> j' = 0 \<or> i' < i \<or> i' = i \<and> j' < Suc j"
    show "set_cell m i j (?D i j) ! i' ! j' = ?D i' j'"
    proof (cases "i' = i \<and> j' = j")
      case True
      then show ?thesis using set_cell_nth [OF sh i(2) j(2) b(1)] by simp
    next
      case False
      then have "i' = 0 \<or> j' = 0 \<or> i' < i \<or> (i' = i \<and> j' < j)" using w by auto
      then have "m ! i' ! j' = ?D i' j'" using known b by blast
      then show ?thesis using False set_cell_nth [OF sh i(2) j(2) b(1)] by simp
    qed
  qed
qed

lemma fill_line_loop:
  assumes "filled_upto str1 str2 i 1 m" "1 \<le> i" "i \<le> length str1" "n \<le> length str2"
  shows "filled_upto str1 str2 i (Suc n) (fold (fill_cell str1 str2 i) [1..<Suc n] m)"
  using assms(4)
proof (induction n)
  case 0
  show ?case using assms(1) by simp
next
  case (Suc n)
  let ?m = "fold (fill_cell str1 str2 i) [1..<Suc n] m"
  have "filled_upto str1 str2 i (Suc n) ?m" using Suc by simp
  then have "filled_upto str1 str2 i (Suc (Suc n)) (fill_cell str1 str2 i (Suc n) ?m)"
    using fill_cell_filled [of str1 str2 i "Suc n" ?m] assms(2,3) Suc.prems by simp
  then show ?case by simp
qed

lemma fill_line_filled:
  assumes "filled_upto str1 str2 i 1 m" "1 \<le> i" "i \<le> length str1"
  shows "filled_upto str1 str2 (Suc i) 1 (fill_line str1 str2 i m)"
proof -
  let ?m = "fill_line str1 str2 i m"
  have F: "filled_upto str1 str2 i (Suc (length str2)) ?m"
    unfolding fill_line_def using fill_line_loop [OF assms, of "length str2"] by simp
  have "?m ! i' ! j' = prefix_distance str1 str2 i' j'"
    if "i' \<le> length str1" "j' \<le> length str2"
      "i' = 0 \<or> j' = 0 \<or> i' < Suc i \<or> (i' = Suc i \<and> j' < 1)" for i' j'
  proof -
    have "i' = 0 \<or> j' = 0 \<or> i' < i \<or> (i' = i \<and> j' < Suc (length str2))"
      using that by linarith
    then show ?thesis using F that(1,2) unfolding filled_upto_def by blast
  qed
  then show ?thesis using F unfolding filled_upto_def by blast
qed

lemma fill_matrix_loop:
  assumes "filled_upto str1 str2 1 1 m" "n \<le> length str1"
  shows "filled_upto str1 str2 (Suc n) 1 (fold (fill_line str1 str2) [1..<Suc n] m)"
  using assms(2)
proof (induction n)
  case 0
  show ?case using assms(1) by simp
next
  case (Suc n)
  let ?m = "fold (fill_line str1 str2) [1..<Suc n] m"
  have "filled_upto str1 str2 (Suc n) 1 ?m" using Suc by simp
  then have "filled_upto str1 str2 (Suc (Suc n)) 1 (fill_line str1 str2 (Suc n) ?m)"
    using fill_line_filled [of str1 str2 "Suc n" ?m] Suc.prems by simp
  then show ?case by simp
qed

lemma distance_matrix_filled:
  "filled_upto str1 str2 (Suc (length str1)) 1 (distance_matrix str1 str2)"
  unfolding distance_matrix_def fill_matrix_def
  using fill_matrix_loop [OF initial_filled, of "length str1" str1 str2] by simp

lemma distance_matrix_cell:
  assumes "i \<le> length str1" "j \<le> length str2"
  shows "distance_matrix str1 str2 ! i ! j = levenshtein (take i str1) (take j str2)"
  using distance_matrix_filled [of str1 str2] assms
  by (simp add: filled_upto_def prefix_distance_def less_Suc_eq_le)

lemma distance_matrix_last:
  "distance_matrix str1 str2 ! length str1 ! length str2 = levenshtein str1 str2"
  using distance_matrix_cell [of "length str1" str1 "length str2" str2] by simp

subsection \<open>The score in exact arithmetic\<close>

lemma length_toLowerCase [simp]: "length (toLowerCase s) = length s"
  by (simp add: toLowerCase_def)

lemma toLowerCase_Nil_iff [simp]: "toLowerCase s = [] \<longleftrightarrow> s = []"
  by (simp add: toLowerCase_def)

lemma levenshtein_eq_0_iff: "levenshtein xs ys = 0 \<longleftrightarrow> xs = ys"
  by (induction xs ys rule: levenshtein.induct) auto

lemma levenshtein_le_max: "levenshtein xs ys \<le> max (length xs) (length ys)"
proof (induction xs ys rule: levenshtein.induct)
  case (3 x xs y ys)
  have "levenshtein (x # xs) (y # ys) \<le> levenshtein xs ys + (if x = y then 0 else 1)"
    by simp
  also have "\<dots> \<le> max (length xs) (length ys) + 1" using "3.IH"(3) by simp
  finally show ?case by simp
qed simp_all

lemma calculateSimilarity_distance:
  "calculateSimilarity a b =
     js_one_minus (js_div (levenshtein (toLowerCase a) (toLowerCase b)) (max (length a) (length b)))"
  using distance_matrix_last [of "toLowerCase a" "toLowerCase b"]
  by (simp add: calculateSimilarity_def Let_def)

lemma calculateSimilarity_nonempty:
  assumes "\<not> (a = [] \<and> b = [])"
  shows "calculateSimilarity a b =
     Num (1 - rat_of_nat (levenshtein (toLowerCase a) (toLowerCase b))
               / rat_of_nat (max (length a) (length b)))"
proof -
  have "max (length a) (length b) \<noteq> 0" using assms by auto
  then show ?thesis by (simp add: calculateSimilarity_distance js_div_def)
qed

lemma calculateSimilarity_range:
  assumes "\<not> (a = [] \<and> b = [])"
  shows "\<exists>q. calculateSimilarity a b = Num q \<and> 0 \<le> q \<and> q \<le> 1"
proof -
  let ?d = "levenshtein (toLowerCase a) (toLowerCase b)"
  let ?m = "max (length a) (length b)"
  have m: "0 < ?m" using assms by (auto simp: less_max_iff_disj)
  have "?d \<le> ?m" using levenshtein_le_max [of "toLowerCase a" "toLowerCase b"] by simp
  then have "rat_of_nat ?d / rat_of_nat ?m \<le> 1" using m
    by (simp add: divide_le_eq_1)
  moreover have "0 \<le> rat_of_nat ?d / rat_of_nat ?m" by simp
  ultimately show ?thesis
    using calculateSimilarity_nonempty [OF assms] by simp
qed

text \<open>
  C3. The claim is that the score is 1.0 exactly when the lower-cased strings are
  identical. The code gives 1.0 exactly when they are identical and not empty: for two
  empty strings it gives NaN, by the missing guard of C1.
\<close>

theorem calculateSimilarity_one_iff:
  "(calculateSimilarity a b = Num 1) = (a \<noteq> [] \<and> toLowerCase a = toLowerCase b)"
proof (cases "a = [] \<and> b = []")
  case True
  then show ?thesis by (simp add: calculateSimilarity_distance js_div_def)
next
  case False
  then have m: "max (length a) (length b) \<noteq> 0" by auto
  define q where "q = rat_of_nat (max (length a) (length b))"
  define d where "d = levenshtein (toLowerCase a) (toLowerCase b)"
  have "q \<noteq> 0" using m unfolding q_def by (simp only: of_nat_eq_0_iff) simp
  then have "(Num (1 - rat_of_nat d / q) = Num 1) = (d = 0)"
    by simp
  then have "(calculateSimilarity a b = Num 1) =
      (levenshtein (toLowerCase a) (toLowerCase b) = 0)"
    unfolding calculateSimilarity_nonempty [OF False] q_def d_def .
  also have "\<dots> = (toLowerCase a = toLowerCase b)"
    by (rule levenshtein_eq_0_iff)
  also have "\<dots> = (a \<noteq> [] \<and> toLowerCase a = toLowerCase b)"
    using False by (metis toLowerCase_Nil_iff)
  finally show ?thesis .
qed

text \<open>
  C4. The score is symmetric in its two arguments.
\<close>

theorem calculateSimilarity_symmetric:
  "calculateSimilarity a b = calculateSimilarity b a"
  by (simp add: calculateSimilarity_distance levenshtein_sym [of "toLowerCase a"] max.commute)

subsection \<open>The rounding is to the nearest double\<close>

text \<open>
  \<open>binary_exponent q\<close> is the exponent of the power of two at or below \<open>q\<close>, so the unit
  of \<open>round_positive\<close> is that of the doubles around \<open>q\<close>; the rounded value is a
  multiple of the unit at most half a unit from \<open>q\<close>, the even multiple at a tie.
\<close>

declare bit_length.simps [simp del]

lemma bit_length_0 [simp]: "bit_length 0 = 0"
  by (simp add: bit_length.simps)

lemma bit_length_Suc: "0 < n \<Longrightarrow> bit_length n = Suc (bit_length (n div 2))"
  by (subst bit_length.simps) simp

lemma bit_length_pos: "0 < n \<Longrightarrow> 0 < bit_length n"
  by (simp add: bit_length_Suc)

lemma bit_length_upper: "n < 2 ^ bit_length n"
proof (induction n rule: bit_length.induct)
  case (1 n)
  show ?case
  proof (cases "n = 0")
    case True
    then show ?thesis by simp
  next
    case False
    then have "n div 2 < 2 ^ bit_length (n div 2)" using 1 by simp
    then have "n < 2 * 2 ^ bit_length (n div 2)" by linarith
    then show ?thesis using False by (simp add: bit_length_Suc)
  qed
qed

lemma bit_length_lower: "0 < n \<Longrightarrow> 2 ^ (bit_length n - 1) \<le> n"
proof (induction n rule: bit_length.induct)
  case (1 n)
  then have n: "n \<noteq> 0" by simp
  have bl: "bit_length n = Suc (bit_length (n div 2))"
    using n by (simp add: bit_length_Suc)
  show ?case
  proof (cases "n div 2 = 0")
    case True
    then show ?thesis using bl 1(2) by simp
  next
    case False
    then have p: "0 < n div 2" by simp
    have ih: "2 ^ (bit_length (n div 2) - 1) \<le> n div 2" using 1(1) [OF n p] .
    obtain k where k: "bit_length (n div 2) = Suc k"
      using bit_length_pos [OF p] by (cases "bit_length (n div 2)") auto
    have "(2::nat) ^ Suc k \<le> 2 * (n div 2)" using ih k by simp
    also have "\<dots> \<le> n" by simp
    finally show ?thesis using bl k by simp
  qed
qed

lemma pow2_nat: "pow2 (int k) = 2 ^ k"
  by (simp add: pow2_def)

lemma pow2_neg: "pow2 (- int k) = 1 / 2 ^ k"
  by (cases "k = 0") (simp_all add: pow2_def)

lemma pow2_pos [simp]: "0 < pow2 e"
  by (simp add: pow2_def)

lemma pow2_Suc: "pow2 (e + 1) = 2 * pow2 e"
proof (cases "0 \<le> e")
  case True
  then show ?thesis by (simp add: pow2_def nat_add_distrib)
next
  case False
  define k where "k = nat (- (e + 1))"
  have s: "nat (- e) = Suc k" unfolding k_def using False by linarith
  have e1: "pow2 e = 1 / 2 ^ Suc k" using False s by (simp add: pow2_def)
  have e2: "pow2 (e + 1) = 1 / 2 ^ k"
  proof (cases "e = - 1")
    case True
    then show ?thesis by (simp add: pow2_def k_def)
  next
    case False
    then have "\<not> 0 \<le> e + 1" using \<open>\<not> 0 \<le> e\<close> by linarith
    then show ?thesis by (simp add: pow2_def k_def)
  qed
  show ?thesis using e1 e2 by simp
qed

lemma round_half_even_nearest: "\<bar>rat_of_int (round_half_even x) - x\<bar> \<le> 1 / 2"
proof -
  have "rat_of_int \<lfloor>x\<rfloor> \<le> x" "x < rat_of_int \<lfloor>x\<rfloor> + 1" by linarith+
  then show ?thesis by (auto simp: round_half_even_def nearest_even_def)
qed

lemma round_half_even_tie:
  "x - rat_of_int \<lfloor>x\<rfloor> = 1 / 2 \<Longrightarrow> even (round_half_even x)"
  by (simp add: round_half_even_def nearest_even_def)

lemma bit_length_floor:
  assumes "0 < m" "bit_length m = Suc k"
  shows "(2::rat) ^ k \<le> rat_of_nat m" "rat_of_nat m + 1 \<le> 2 * 2 ^ k"
proof -
  have "2 ^ k \<le> m" using bit_length_lower [OF assms(1)] assms(2) by simp
  then have "rat_of_nat (2 ^ k) \<le> rat_of_nat m" by (simp only: of_nat_le_iff)
  then show "(2::rat) ^ k \<le> rat_of_nat m" by simp
  have "Suc m \<le> 2 * 2 ^ k" using bit_length_upper [of m] assms(2) by simp
  then have "rat_of_nat (Suc m) \<le> rat_of_nat (2 * 2 ^ k)" by (simp only: of_nat_le_iff)
  then show "rat_of_nat m + 1 \<le> 2 * 2 ^ k" by simp
qed

lemma binary_exponent_bounds:
  assumes "0 < q"
  shows "pow2 (binary_exponent q) \<le> q \<and> q < pow2 (binary_exponent q + 1)"
proof (cases "1 \<le> q")
  case True
  define m where "m = nat \<lfloor>q\<rfloor>"
  have m: "0 < m" "rat_of_nat m \<le> q" "q < rat_of_nat m + 1"
    using True by (simp_all add: m_def) linarith+
  obtain k where k: "bit_length m = Suc k"
    using bit_length_pos [OF m(1)] by (cases "bit_length m") auto
  have "binary_exponent q = int (bit_length m) - 1"
    using True by (simp add: binary_exponent_def m_def)
  then have e: "binary_exponent q = int k" using k by simp
  have p: "pow2 (binary_exponent q) = 2 ^ k" "pow2 (binary_exponent q + 1) = 2 * 2 ^ k"
    by (simp_all add: e pow2_Suc pow2_nat)
  show ?thesis using p m bit_length_floor [OF m(1) k] by linarith
next
  case False
  define m where "m = nat \<lfloor>1 / q\<rfloor>"
  have "1 < 1 / q" using False assms by simp
  then have m: "0 < m" "rat_of_nat m \<le> 1 / q" "1 / q < rat_of_nat m + 1"
    by (simp_all add: m_def) linarith+
  obtain k where k: "bit_length m = Suc k"
    using bit_length_pos [OF m(1)] by (cases "bit_length m") auto
  note b = bit_length_floor [OF m(1) k]
  define j where "j = - int (Suc k)"
  have j: "1 - int (Suc k) = j + 1" "- int (Suc k) = j" by (simp_all add: j_def)
  have pj: "pow2 j = 1 / (2 * 2 ^ k)"
    unfolding j_def by (simp only: pow2_neg power_Suc)
  have pj1: "pow2 (j + 1) = 1 / 2 ^ k"
    by (simp add: pow2_Suc pj)
  have pj2: "pow2 (j + 1 + 1) = 2 * pow2 (j + 1)"
    by (rule pow2_Suc)
  have "1 / q < 2 * 2 ^ k" using m b by linarith
  then have "1 < 2 * 2 ^ k * q" using assms by (simp add: pos_divide_less_eq)
  then have low: "pow2 j < q" unfolding pj by (simp add: pos_divide_less_eq mult.commute)
  have "2 ^ k \<le> 1 / q" using m b by linarith
  then have "2 ^ k * q \<le> 1" using assms by (simp add: pos_le_divide_eq)
  then have up: "q \<le> pow2 (j + 1)" unfolding pj1 by (simp add: pos_le_divide_eq mult.commute)
  have "binary_exponent q = exponent_below_one q (int (bit_length m))"
    using False by (simp add: binary_exponent_def m_def)
  then have e: "binary_exponent q = (if pow2 (j + 1) \<le> q then j + 1 else j)"
    by (simp only: k exponent_below_one_def j)
  show ?thesis
  proof (cases "pow2 (j + 1) \<le> q")
    case True
    then have "binary_exponent q = j + 1" using e by simp
    then show ?thesis using True up pj2 assms by simp
  next
    case False
    then have "binary_exponent q = j" using e by simp
    then show ?thesis using False low by simp
  qed
qed

lemma round_positive_nearest:
  "\<bar>round_positive q - q\<bar> \<le> pow2 (max (binary_exponent q) (- 1022) - 52) / 2"
proof -
  define ulp where "ulp = pow2 (max (binary_exponent q) (- 1022) - 52)"
  define a where "a = rat_of_int (round_half_even (q / ulp))"
  have u: "0 < ulp" by (simp add: ulp_def)
  have h: "\<bar>a - q / ulp\<bar> \<le> 1 / 2" unfolding a_def by (rule round_half_even_nearest)
  have "a * ulp - q = (a - q / ulp) * ulp" using u by (simp add: left_diff_distrib)
  then have "\<bar>a * ulp - q\<bar> = \<bar>a - q / ulp\<bar> * ulp" using u by (simp add: abs_mult)
  also have "\<dots> \<le> 1 / 2 * ulp" using h u by (intro mult_right_mono) simp_all
  finally have "\<bar>a * ulp - q\<bar> \<le> ulp / 2" by simp
  then show ?thesis
    unfolding round_positive_def round_to_multiple_def ulp_def a_def .
qed

subsection \<open>The score as the engine computes it\<close>

lemma floor_numeral_quotient [simp]:
  "\<lfloor>(numeral a :: rat) / numeral b\<rfloor> = numeral a div numeral b"
  using floor_divide_of_int_eq [of "numeral a" "numeral b", where ?'a = rat] by simp

lemmas double_simps = double_of_def finite_or_def round_positive_def round_to_multiple_def
  round_half_even_def nearest_even_def binary_exponent_def exponent_below_one_def pow2_def
  bit_length.simps

lemma double_of_0 [simp]: "double_of 0 = Num 0"
  by (simp add: double_of_def)

lemma double_of_1 [simp]: "double_of 1 = Num 1"
  by (simp add: double_simps)

lemma double_of_seven_tenths: "double_of (7 / 10) = Num seven_tenths"
  by (simp add: double_simps seven_tenths_def)

lemma double_of_nine_tenths: "double_of (9 / 10) = Num nine_tenths"
  by (simp add: double_simps nine_tenths_def)

lemma double_of_one_fifth: "double_of (1 / 5) = Num one_fifth"
  by (simp add: double_simps one_fifth_def)

lemma calculateSimilarity_js_distance:
  "calculateSimilarity_js js a b =
     double_one_minus
       (double_div (levenshtein (lowerCase js a) (lowerCase js b))
          (max (length (lowerCase js a)) (length (lowerCase js b))))"
  using distance_matrix_last [of "lowerCase js a" "lowerCase js b"]
  by (simp add: calculateSimilarity_js_def Let_def)

lemma calculateSimilarity_js_nonempty:
  assumes "\<not> (lowerCase js a = [] \<and> lowerCase js b = [])"
  shows "calculateSimilarity_js js a b =
     double_one_minus
       (double_of (rat_of_nat (levenshtein (lowerCase js a) (lowerCase js b))
                   / rat_of_nat (max (length (lowerCase js a)) (length (lowerCase js b)))))"
proof -
  have "max (length (lowerCase js a)) (length (lowerCase js b)) \<noteq> 0" using assms by auto
  then show ?thesis by (simp add: calculateSimilarity_js_distance double_div_def)
qed

lemma calculateSimilarity_js_identical:
  assumes "lowerCase js a \<noteq> []" "lowerCase js a = lowerCase js b"
  shows "calculateSimilarity_js js a b = Num 1"
proof -
  have "levenshtein (lowerCase js a) (lowerCase js b) = 0"
    using assms(2) by (simp add: levenshtein_eq_0_iff)
  then show ?thesis using assms by (simp add: calculateSimilarity_js_nonempty)
qed

lemma calculateSimilarity_js_empty:
  "lowerCase js a = [] \<Longrightarrow> lowerCase js b = [] \<Longrightarrow> calculateSimilarity_js js a b = NaN"
  by (simp add: calculateSimilarity_js_distance double_div_def)

lemma calculateSimilarity_js_symmetric:
  "calculateSimilarity_js js a b = calculateSimilarity_js js b a"
  by (simp add: calculateSimilarity_js_distance levenshtein_sym [of "lowerCase js a"] max.commute)

lemma sample_lower_kitten:
  "lowerCase sample_builtins (utf16 ''kitten'') = utf16 ''kitten''"
  "lowerCase sample_builtins (utf16 ''sitting'') = utf16 ''sitting''"
  by (simp_all add: sample_builtins_def sample_lowerCase_def sample_lower_unit_def utf16_def)

lemma kitten_sitting_units: "levenshtein (utf16 ''kitten'') (utf16 ''sitting'') = 3"
  by (simp add: utf16_def)

lemma kitten_sitting_score:
  "calculateSimilarity_js sample_builtins (utf16 ''kitten'') (utf16 ''sitting'') =
     Num (2573485501354569 / 4503599627370496)"
proof -
  have "double_of (3 / 7) = Num (7720456504063707 / 18014398509481984)"
    by (simp add: double_simps)
  moreover have "double_of (1 - 7720456504063707 / 18014398509481984)
      = Num (2573485501354569 / 4503599627370496)"
    by (simp add: double_simps)
  ultimately show ?thesis
    by (simp add: calculateSimilarity_js_distance sample_lower_kitten kitten_sitting_units
        double_div_def) (simp add: utf16_def)
qed

lemma dotted_I_score:
  "calculateSimilarity_js sample_builtins [304] [105] = Num (1 / 2)"
proof -
  have l: "lowerCase sample_builtins [304] = [105, 775]" "lowerCase sample_builtins [105] = [105]"
    by (simp_all add: sample_builtins_def sample_lowerCase_def sample_lower_unit_def)
  have "double_of (1 / 2) = Num (1 / 2)" by (simp add: double_simps)
  then show ?thesis
    by (simp add: calculateSimilarity_js_distance l double_div_def)
qed

text \<open>
  C2, as the claim states it, divides by the larger length of the two strings as they
  are given. The code divides by the larger length of the lower-cased strings, and
  lower-casing can lengthen a string: the capital I with dot above (U+0130) becomes a
  small i and a combining dot above. For that letter against a small i the code returns
  1 - 1/2, while the distance of the lower-cased strings divided by the larger length of
  the given strings is 1, which leaves 0.
\<close>

theorem calculateSimilarity_uses_lowered_lengths:
  "calculateSimilarity_js sample_builtins [304] [105] = Num (1 / 2)
   \<and> 1 - rat_of_nat (levenshtein (lowerCase sample_builtins [304]) (lowerCase sample_builtins [105]))
          / rat_of_nat (max (length [304::nat]) (length [105::nat])) = 0"
proof -
  have l: "lowerCase sample_builtins [304] = [105, 775]" "lowerCase sample_builtins [105] = [105]"
    by (simp_all add: sample_builtins_def sample_lowerCase_def sample_lower_unit_def)
  show ?thesis using dotted_I_score by (simp add: l)
qed

text \<open>
  C2, amended. For two strings whose lower-cased forms are not both empty, the score is
  1 minus the Levenshtein distance of the lower-cased strings divided by the larger length
  of the lower-cased strings, the quotient and the difference each rounded to the nearest
  double. For kitten and sitting the distance is 3, the quotient 3/7 rounds to
  7720456504063707 / 2^54 and the score is 2573485501354569 / 2^52, the double that prints
  as 0.5714285714285714.
\<close>

theorem calculateSimilarity_js_is_levenshtein:
  "(\<not> (lowerCase js a = [] \<and> lowerCase js b = []) \<longrightarrow>
      calculateSimilarity_js js a b =
        double_one_minus
          (double_of (rat_of_nat (levenshtein (lowerCase js a) (lowerCase js b))
                      / rat_of_nat (max (length (lowerCase js a)) (length (lowerCase js b))))))
   \<and> double_of (3 / 7) = Num (7720456504063707 / 18014398509481984)
   \<and> double_one_minus (Num (7720456504063707 / 18014398509481984))
       = Num (2573485501354569 / 4503599627370496)
   \<and> calculateSimilarity_js sample_builtins (utf16 ''kitten'') (utf16 ''sitting'') =
       Num (2573485501354569 / 4503599627370496)"
proof (intro conjI)
  show "\<not> (lowerCase js a = [] \<and> lowerCase js b = []) \<longrightarrow>
      calculateSimilarity_js js a b =
        double_one_minus
          (double_of (rat_of_nat (levenshtein (lowerCase js a) (lowerCase js b))
                      / rat_of_nat (max (length (lowerCase js a)) (length (lowerCase js b)))))"
    using calculateSimilarity_js_nonempty by blast
  show "double_of (3 / 7) = Num (7720456504063707 / 18014398509481984)"
    by (simp add: double_simps)
  show "double_one_minus (Num (7720456504063707 / 18014398509481984))
       = Num (2573485501354569 / 4503599627370496)"
    by (simp add: double_simps)
  show "calculateSimilarity_js sample_builtins (utf16 ''kitten'') (utf16 ''sitting'') =
       Num (2573485501354569 / 4503599627370496)"
    by (rule kitten_sitting_score)
qed

theorem calculateSimilarity_js_is_levenshtein_witness:
  "calculateSimilarity_js sample_builtins [304] [105] = Num (1 / 2)"
proof -
  have l: "lowerCase sample_builtins [304] = [105, 775]" "lowerCase sample_builtins [105] = [105]"
    by (simp_all add: sample_builtins_def sample_lowerCase_def sample_lower_unit_def)
  have "double_of (1 / 2) = Num (1 / 2)" by (simp add: double_simps)
  then show ?thesis
    using calculateSimilarity_js_is_levenshtein [of sample_builtins "[304]" "[105]"] l
    by simp
qed

section \<open>Properties of the searches\<close>

subsection \<open>No search function raises\<close>

lemma try_catch_empty: "\<exists>rs. try_catch body (\<lambda>e. Inr []) = Inr rs"
  by (cases body) (simp_all add: try_catch_def)

lemma searchTwitterAccountsViaAPI_returns:
  "\<exists>rs. searchTwitterAccountsViaAPI js options response = Inr rs"
  unfolding searchTwitterAccountsViaAPI_def Let_def by (rule try_catch_empty)

lemma scrapeTwitterResults_returns:
  "\<exists>rs. scrapeTwitterResults js options response = Inr rs"
  unfolding scrapeTwitterResults_def Let_def by (rule try_catch_empty)

lemma scrapeDirectTwitterResults_returns:
  "\<exists>rs. scrapeDirectTwitterResults js options response = Inr rs"
  unfolding scrapeDirectTwitterResults_def Let_def by (rule try_catch_empty)

lemma searchFacebookAccounts_returns:
  "\<exists>rs. searchFacebookAccounts js options up = Inr rs"
  unfolding searchFacebookAccounts_def Let_def by (rule try_catch_empty)

lemma scrapeFacebookResults_returns:
  "\<exists>rs. scrapeFacebookResults js kw up = Inr rs"
  unfolding scrapeFacebookResults_def by (rule try_catch_empty)

lemma twitter_scrapers_returns:
  "\<exists>rs. snd (twitter_scrapers js called up options) = Inr rs"
  using scrapeDirectTwitterResults_returns [of js options "twitter_page up"]
  by (auto simp: twitter_scrapers_def split: sum.splits)

lemma searchTwitterAccounts_returns:
  "\<exists>rs. snd (searchTwitterAccounts js cfg up options) = Inr rs"
  using twitter_scrapers_returns [of js _ up options]
  by (auto simp: searchTwitterAccounts_def split: sum.splits)

lemma searchTwitterAccountsViaAPI_failed:
  "failed response \<Longrightarrow> searchTwitterAccountsViaAPI js options response = Inr []"
  by (cases response)
     (simp_all add: failed_def searchTwitterAccountsViaAPI_def read_body_def try_catch_def)

lemma scrapeTwitterResults_failed:
  "failed response \<Longrightarrow> scrapeTwitterResults js options response = Inr []"
  by (cases response)
     (simp_all add: failed_def scrapeTwitterResults_def read_body_def try_catch_def)

lemma scrapeDirectTwitterResults_failed:
  "failed response \<Longrightarrow> scrapeDirectTwitterResults js options response = Inr []"
  by (cases response)
     (simp_all add: failed_def scrapeDirectTwitterResults_def read_body_def try_catch_def)

lemma scrapeDirectTwitterResults_invalid:
  "scrapeDirectTwitterResults js options (Body InvalidJson) = Inr []"
  by (simp add: scrapeDirectTwitterResults_def read_body_def try_catch_def)

lemma searchFacebookAccounts_failed:
  "failed (page_search up) \<Longrightarrow> searchFacebookAccounts js options up = Inr []"
  by (cases "page_search up")
     (simp_all add: failed_def searchFacebookAccounts_def read_body_def try_catch_def)

lemma searchFacebookAccounts_failed_users:
  "user_search up = Rejects \<or> user_search up = BodyRejects
     \<Longrightarrow> searchFacebookAccounts js options up = Inr []"
  by (cases "page_search up")
     (auto simp add: searchFacebookAccounts_def read_body_def try_catch_def)

lemma scrapeFacebookResults_failed:
  "failed (search_page up) \<Longrightarrow> scrapeFacebookResults js kw up = Inr []"
  by (cases "search_page up")
     (simp_all add: failed_def scrapeFacebookResults_def read_body_def try_catch_def)

lemma searchTwitterAccounts_exhausted:
  assumes "failed (users_search up)" "failed (nitter_page up)" "failed (twitter_page up)"
  shows "snd (searchTwitterAccounts js cfg up options) = Inr []"
  using searchTwitterAccountsViaAPI_failed [OF assms(1), of js options]
    scrapeTwitterResults_failed [OF assms(2), of js options]
    scrapeDirectTwitterResults_failed [OF assms(3), of js options]
  by (simp add: searchTwitterAccounts_def twitter_scrapers_def)

text \<open>
  C9. The search and scrape functions of Twitter and Facebook never raise: each returns a
  sequence of candidates for every options value and every upstream answer, and the empty
  sequence when its request fails (transport error, bad status, unreadable body, text that
  is not JSON) or, for the Twitter search, when all three sources fail. The Facebook
  search also returns the empty sequence when its second request is rejected or the body
  of that request cannot be read.
\<close>

theorem search_functions_never_raise:
  "(\<exists>rs. searchTwitterAccountsViaAPI js options r1 = Inr rs) \<and>
   (\<exists>rs. scrapeTwitterResults js options r2 = Inr rs) \<and>
   (\<exists>rs. scrapeDirectTwitterResults js options r3 = Inr rs) \<and>
   (\<exists>rs. snd (searchTwitterAccounts js cfg tw options) = Inr rs) \<and>
   (\<exists>rs. searchFacebookAccounts js options fb = Inr rs) \<and>
   (\<exists>rs. scrapeFacebookResults js kw fb = Inr rs) \<and>
   (failed r1 \<longrightarrow> searchTwitterAccountsViaAPI js options r1 = Inr []) \<and>
   (failed r2 \<longrightarrow> scrapeTwitterResults js options r2 = Inr []) \<and>
   (failed r3 \<longrightarrow> scrapeDirectTwitterResults js options r3 = Inr []) \<and>
   scrapeDirectTwitterResults js options (Body InvalidJson) = Inr [] \<and>
   (failed (users_search tw) \<and> failed (nitter_page tw) \<and> failed (twitter_page tw) \<longrightarrow>
      snd (searchTwitterAccounts js cfg tw options) = Inr []) \<and>
   (failed (page_search fb) \<longrightarrow> searchFacebookAccounts js options fb = Inr []) \<and>
   (user_search fb = Rejects \<or> user_search fb = BodyRejects \<longrightarrow>
      searchFacebookAccounts js options fb = Inr []) \<and>
   (failed (search_page fb) \<longrightarrow> scrapeFacebookResults js kw fb = Inr [])"
proof (intro conjI impI)
  show "\<exists>rs. searchTwitterAccountsViaAPI js options r1 = Inr rs"
    by (rule searchTwitterAccountsViaAPI_returns)
  show "\<exists>rs. scrapeTwitterResults js options r2 = Inr rs"
    by (rule scrapeTwitterResults_returns)
  show "\<exists>rs. scrapeDirectTwitterResults js options r3 = Inr rs"
    by (rule scrapeDirectTwitterResults_returns)
  show "\<exists>rs. snd (searchTwitterAccounts js cfg tw options) = Inr rs"
    by (rule searchTwitterAccounts_returns)
  show "\<exists>rs. searchFacebookAccounts js options fb = Inr rs"
    by (rule searchFacebookAccounts_returns)
  show "\<exists>rs. scrapeFacebookResults js kw fb = Inr rs"
    by (rule scrapeFacebookResults_returns)
  show "searchTwitterAccountsViaAPI js options r1 = Inr []" if "failed r1"
    using that by (rule searchTwitterAccountsViaAPI_failed)
  show "scrapeTwitterResults js options r2 = Inr []" if "failed r2"
    using that by (rule scrapeTwitterResults_failed)
  show "scrapeDirectTwitterResults js options r3 = Inr []" if "failed r3"
    using that by (rule scrapeDirectTwitterResults_failed)
  show "scrapeDirectTwitterResults js options (Body InvalidJson) = Inr []"
    by (rule scrapeDirectTwitterResults_invalid)
  show "snd (searchTwitterAccounts js cfg tw options) = Inr []"
    if "failed (users_search tw) \<and> failed (nitter_page tw) \<and> failed (twitter_page tw)"
    using that by (intro searchTwitterAccounts_exhausted) simp_all
  show "searchFacebookAccounts js options fb = Inr []" if "failed (page_search fb)"
    using that by (rule searchFacebookAccounts_failed)
  show "searchFacebookAccounts js options fb = Inr []"
    if "user_search fb = Rejects \<or> user_search fb = BodyRejects"
    using that by (rule searchFacebookAccounts_failed_users)
  show "scrapeFacebookResults js kw fb = Inr []" if "failed (search_page fb)"
    using that by (rule scrapeFacebookResults_failed)
qed

theorem search_functions_never_raise_witness:
  "snd (searchTwitterAccounts sample_builtins api_on unreachable acme_options) = Inr []
   \<and> failed (users_search unreachable) \<and> failed (nitter_page unreachable)
   \<and> failed (twitter_page unreachable)
   \<and> searchFacebookAccounts sample_builtins acme_options facebook_scraper_answers = Inr []
   \<and> failed (page_search facebook_scraper_answers)
   \<and> scrapeFacebookResults sample_builtins (utf16 ''acme'') facebook_api_answers = Inr []
   \<and> failed (search_page facebook_api_answers)"
proof -
  have f: "failed (users_search unreachable)" "failed (nitter_page unreachable)"
    "failed (twitter_page unreachable)" "failed (page_search facebook_scraper_answers)"
    "failed (search_page facebook_api_answers)"
    by (simp_all add: unreachable_def failed_def facebook_scraper_answers_def
        facebook_api_answers_def)
  have 1: "snd (searchTwitterAccounts sample_builtins api_on unreachable acme_options) = Inr []"
    using search_functions_never_raise [where js = sample_builtins and cfg = api_on
        and tw = unreachable and options = acme_options] f
    by blast
  have 2: "searchFacebookAccounts sample_builtins acme_options facebook_scraper_answers = Inr []"
    using search_functions_never_raise [where js = sample_builtins
        and fb = facebook_scraper_answers and options = acme_options] f
    by blast
  have 3: "scrapeFacebookResults sample_builtins (utf16 ''acme'') facebook_api_answers = Inr []"
    using search_functions_never_raise [where js = sample_builtins
        and fb = facebook_api_answers and kw = "utf16 ''acme''"] f
    by blast
  show ?thesis using 1 2 3 f by (intro conjI) assumption+
qed

subsection \<open>The fallback chain\<close>

lemma utf16_Nil_iff [simp]: "utf16 s = [] \<longleftrightarrow> s = []"
  by (simp add: utf16_def)

lemma sample_lower_acme:
  "lowerCase sample_builtins (utf16 ''Acme'') = utf16 ''acme''"
  "lowerCase sample_builtins (utf16 ''acme'') = utf16 ''acme''"
  "lowerCase sample_builtins (utf16 ''Acne'') = utf16 ''acne''"
  "lowerCase sample_builtins (utf16 ''Shop'') = utf16 ''shop''"
  by (simp_all add: sample_builtins_def sample_lowerCase_def sample_lower_unit_def utf16_def)

lemma Acme_acme [simp]:
  "calculateSimilarity_js sample_builtins (utf16 ''Acme'') (utf16 ''acme'') = Num 1"
  by (rule calculateSimilarity_js_identical) (simp_all add: sample_lower_acme)

lemma seven_tenths_le_1 [simp]: "seven_tenths \<le> 1"
  by (simp add: seven_tenths_def)

lemma at_least_default [simp]: "at_least js (Num 1) (JNum seven_tenths)"
  by (simp add: at_least_def to_number_def)

lemma trim_Acme [simp]: "trim (utf16 '' Acme '') = utf16 ''Acme''"
  by (simp add: trim_def utf16_def is_space_def)

lemma trim_Nil [simp]: "trim [] = []"
  by (simp add: trim_def)

lemma acme_twitter_api:
  "searchTwitterAccountsViaAPI sample_builtins acme_options (users_search twitter_api_answers)
     = Inr [acme_account]"
  by (simp add: searchTwitterAccountsViaAPI_def acme_options_def twitter_api_answers_def
      read_body_def try_catch_def default_to_def acme_account_def)
     (simp add: utf16_def)

lemma acme_nitter:
  "scrapeTwitterResults sample_builtins acme_options (nitter_page twitter_nitter_answers)
     = Inr [acme_account\<lparr>description := Some []\<rparr>]"
  by (simp add: scrapeTwitterResults_def acme_options_def twitter_nitter_answers_def
      read_body_def try_catch_def default_to_def acme_account_def)
     (simp add: utf16_def)

lemma acme_direct:
  "scrapeDirectTwitterResults sample_builtins acme_options (twitter_page twitter_direct_answers)
     = Inr [acme_account\<lparr>description := Some []\<rparr>]"
  by (simp add: scrapeDirectTwitterResults_def acme_options_def twitter_direct_answers_def
      read_body_def try_catch_def default_to_def acme_account_def)
     (simp add: utf16_def)

lemma acme_facebook_api:
  "searchFacebookAccounts sample_builtins (facebook_options (utf16 ''acme'') acme_request)
       facebook_api_answers
    = Inr [\<lparr>name = utf16 ''Acme'', description = None,
            url = utf16 ''https://www.facebook.com/acme''\<rparr>]"
  by (simp add: searchFacebookAccounts_def facebook_options_def acme_request_def
      facebook_api_answers_def read_body_def try_catch_def default_to_def or_else_def)

lemma acme_facebook_scraper:
  "scrapeFacebookResults sample_builtins (utf16 ''acme'') facebook_scraper_answers
    = Inr [\<lparr>name = utf16 ''Acme'', description = None,
            url = utf16 ''https://www.facebook.com/acme''\<rparr>]"
  by (simp add: scrapeFacebookResults_def facebook_scraper_answers_def read_body_def
      try_catch_def)

lemma facebook_scraper_called:
  assumes "request_keyword body = Some kw" "kw \<noteq> []"
  shows "(PageScraper \<in> set (fst (facebook_api_search js fb (Some body)))) =
         (searchFacebookAccounts js (facebook_options kw body) fb = Inr [])"
proof -
  obtain rs where rs: "searchFacebookAccounts js (facebook_options kw body) fb = Inr rs"
    using searchFacebookAccounts_returns by blast
  obtain ss where ss: "scrapeFacebookResults js kw fb = Inr ss"
    using scrapeFacebookResults_returns by blast
  show ?thesis using assms rs ss by (simp add: facebook_api_search_def)
qed

text \<open>
  C7. The search calls the scraping fallbacks exactly when the API path gives no
  candidate. A non-empty API result is returned as it is and no scraper is called. An
  empty one (a failed API request gives the empty result) leads to the scrapers in their
  fixed order: for Twitter Nitter first, and the direct scraper when Nitter gives nothing;
  for Facebook the page scraper. For Twitter the API is called only when it is enabled and
  the token is set; otherwise the scrapers run at once.
\<close>

theorem fallback_chain:
  "(USE_API cfg \<and> TWITTER_BEARER_TOKEN cfg \<noteq> []
      \<and> TWITTER_BEARER_TOKEN cfg \<noteq> ''your_twitter_bearer_token_here''
      \<and> searchTwitterAccountsViaAPI js options (users_search tw) = Inr rs \<and> rs \<noteq> []
    \<longrightarrow> searchTwitterAccounts js cfg tw options = ([Api], Inr rs))
   \<and> (USE_API cfg \<and> TWITTER_BEARER_TOKEN cfg \<noteq> []
      \<and> TWITTER_BEARER_TOKEN cfg \<noteq> ''your_twitter_bearer_token_here''
      \<and> searchTwitterAccountsViaAPI js options (users_search tw) = Inr []
      \<and> scrapeTwitterResults js options (nitter_page tw) = Inr rs \<and> rs \<noteq> []
    \<longrightarrow> searchTwitterAccounts js cfg tw options = ([Api, NitterScraper], Inr rs))
   \<and> (USE_API cfg \<and> TWITTER_BEARER_TOKEN cfg \<noteq> []
      \<and> TWITTER_BEARER_TOKEN cfg \<noteq> ''your_twitter_bearer_token_here''
      \<and> searchTwitterAccountsViaAPI js options (users_search tw) = Inr []
      \<and> scrapeTwitterResults js options (nitter_page tw) = Inr []
    \<longrightarrow> searchTwitterAccounts js cfg tw options =
          ([Api, NitterScraper, DirectScraper],
           scrapeDirectTwitterResults js options (twitter_page tw)))
   \<and> (\<not> (USE_API cfg \<and> TWITTER_BEARER_TOKEN cfg \<noteq> []
           \<and> TWITTER_BEARER_TOKEN cfg \<noteq> ''your_twitter_bearer_token_here'')
      \<and> scrapeTwitterResults js options (nitter_page tw) = Inr rs \<and> rs \<noteq> []
    \<longrightarrow> searchTwitterAccounts js cfg tw options = ([NitterScraper], Inr rs))
   \<and> (\<not> (USE_API cfg \<and> TWITTER_BEARER_TOKEN cfg \<noteq> []
           \<and> TWITTER_BEARER_TOKEN cfg \<noteq> ''your_twitter_bearer_token_here'')
      \<and> scrapeTwitterResults js options (nitter_page tw) = Inr []
    \<longrightarrow> searchTwitterAccounts js cfg tw options =
          ([NitterScraper, DirectScraper],
           scrapeDirectTwitterResults js options (twitter_page tw)))
   \<and> (request_keyword body = Some kw \<and> kw \<noteq> []
      \<and> searchFacebookAccounts js (facebook_options kw body) fb = Inr rs \<and> rs \<noteq> []
    \<longrightarrow> facebook_api_search js fb (Some body) = ([Api], SearchResults kw (length rs) rs))
   \<and> (request_keyword body = Some kw \<and> kw \<noteq> []
      \<and> searchFacebookAccounts js (facebook_options kw body) fb = Inr []
      \<and> scrapeFacebookResults js kw fb = Inr ss
    \<longrightarrow> facebook_api_search js fb (Some body) =
          ([Api, PageScraper], SearchResults kw (length ss) ss))
   \<and> (request_keyword body = Some kw \<and> kw \<noteq> []
    \<longrightarrow> (PageScraper \<in> set (fst (facebook_api_search js fb (Some body)))) =
          (searchFacebookAccounts js (facebook_options kw body) fb = Inr []))"
  apply (intro conjI)
  subgoal by (simp add: searchTwitterAccounts_def twitter_scrapers_def)
  subgoal by (simp add: searchTwitterAccounts_def twitter_scrapers_def)
  subgoal by (simp add: searchTwitterAccounts_def twitter_scrapers_def)
  subgoal by (simp add: searchTwitterAccounts_def twitter_scrapers_def)
  subgoal by (simp add: searchTwitterAccounts_def twitter_scrapers_def)
  subgoal by (simp add: facebook_api_search_def)
  subgoal by (simp add: facebook_api_search_def)
  subgoal using facebook_scraper_called [of body kw js fb] by blast
  done

theorem fallback_chain_witness:
  "searchTwitterAccounts sample_builtins api_on twitter_api_answers acme_options
       = ([Api], Inr [acme_account])
   \<and> searchTwitterAccounts sample_builtins api_on twitter_nitter_answers acme_options =
         ([Api, NitterScraper], Inr [acme_account\<lparr>description := Some []\<rparr>])
   \<and> searchTwitterAccounts sample_builtins api_on twitter_direct_answers acme_options =
         ([Api, NitterScraper, DirectScraper], Inr [acme_account\<lparr>description := Some []\<rparr>])
   \<and> searchTwitterAccounts sample_builtins api_off twitter_nitter_answers acme_options =
         ([NitterScraper], Inr [acme_account\<lparr>description := Some []\<rparr>])
   \<and> searchTwitterAccounts sample_builtins api_off twitter_direct_answers acme_options =
         ([NitterScraper, DirectScraper], Inr [acme_account\<lparr>description := Some []\<rparr>])
   \<and> facebook_api_search sample_builtins facebook_api_answers (Some acme_request) =
         ([Api], SearchResults (utf16 ''acme'') 1
            [\<lparr>name = utf16 ''Acme'', description = None,
              url = utf16 ''https://www.facebook.com/acme''\<rparr>])
   \<and> facebook_api_search sample_builtins facebook_scraper_answers (Some acme_request) =
         ([Api, PageScraper], SearchResults (utf16 ''acme'') 1
            [\<lparr>name = utf16 ''Acme'', description = None,
              url = utf16 ''https://www.facebook.com/acme''\<rparr>])
   \<and> PageScraper
       \<in> set (fst (facebook_api_search sample_builtins facebook_scraper_answers (Some acme_request)))"
proof -
  let ?scraped = "[acme_account\<lparr>description := Some []\<rparr>]"
  let ?page = "[\<lparr>name = utf16 ''Acme'', description = None,
                  url = utf16 ''https://www.facebook.com/acme''\<rparr>]"
  have on: "USE_API api_on \<and> TWITTER_BEARER_TOKEN api_on \<noteq> []
      \<and> TWITTER_BEARER_TOKEN api_on \<noteq> ''your_twitter_bearer_token_here''"
    by (simp add: api_on_def)
  have off: "\<not> (USE_API api_off \<and> TWITTER_BEARER_TOKEN api_off \<noteq> []
      \<and> TWITTER_BEARER_TOKEN api_off \<noteq> ''your_twitter_bearer_token_here'')"
    by (simp add: api_off_def)
  have a0: "searchTwitterAccountsViaAPI sample_builtins acme_options
              (users_search twitter_nitter_answers) = Inr []"
    "searchTwitterAccountsViaAPI sample_builtins acme_options
              (users_search twitter_direct_answers) = Inr []"
    by (simp_all add: searchTwitterAccountsViaAPI_failed failed_def twitter_nitter_answers_def
        twitter_direct_answers_def)
  have n0: "scrapeTwitterResults sample_builtins acme_options
              (nitter_page twitter_direct_answers) = Inr []"
    by (simp add: scrapeTwitterResults_def twitter_direct_answers_def read_body_def try_catch_def)
  have kw: "request_keyword acme_request = Some (utf16 ''acme'')" "utf16 ''acme'' \<noteq> []"
    by (simp_all add: acme_request_def)
  have f0: "searchFacebookAccounts sample_builtins
              (facebook_options (utf16 ''acme'') acme_request) facebook_scraper_answers = Inr []"
    by (simp add: searchFacebookAccounts_failed failed_def facebook_scraper_answers_def)
  have 1: "searchTwitterAccounts sample_builtins api_on twitter_api_answers acme_options
       = ([Api], Inr [acme_account])"
    using fallback_chain [where js = sample_builtins and cfg = api_on and options = acme_options
        and tw = twitter_api_answers and rs = "[acme_account]"] on acme_twitter_api
    by simp
  have 2: "searchTwitterAccounts sample_builtins api_on twitter_nitter_answers acme_options =
         ([Api, NitterScraper], Inr ?scraped)"
    using fallback_chain [where js = sample_builtins and cfg = api_on and options = acme_options
        and tw = twitter_nitter_answers and rs = ?scraped] on a0 acme_nitter
    by simp
  have 3: "searchTwitterAccounts sample_builtins api_on twitter_direct_answers acme_options =
         ([Api, NitterScraper, DirectScraper], Inr ?scraped)"
    using fallback_chain [where js = sample_builtins and cfg = api_on and options = acme_options
        and tw = twitter_direct_answers] on a0 n0 acme_direct
    by simp
  have 4: "searchTwitterAccounts sample_builtins api_off twitter_nitter_answers acme_options =
         ([NitterScraper], Inr ?scraped)"
    using fallback_chain [where js = sample_builtins and cfg = api_off and options = acme_options
        and tw = twitter_nitter_answers and rs = ?scraped] off acme_nitter
    by simp
  have 5: "searchTwitterAccounts sample_builtins api_off twitter_direct_answers acme_options =
         ([NitterScraper, DirectScraper], Inr ?scraped)"
    using fallback_chain [where js = sample_builtins and cfg = api_off and options = acme_options
        and tw = twitter_direct_answers] off n0 acme_direct
    by simp
  have 6: "facebook_api_search sample_builtins facebook_api_answers (Some acme_request) =
         ([Api], SearchResults (utf16 ''acme'') 1 ?page)"
    using fallback_chain [where js = sample_builtins and body = acme_request
        and kw = "utf16 ''acme''" and fb = facebook_api_answers and rs = ?page]
      kw acme_facebook_api
    by simp
  have 7: "facebook_api_search sample_builtins facebook_scraper_answers (Some acme_request) =
         ([Api, PageScraper], SearchResults (utf16 ''acme'') 1 ?page)"
    and 8: "PageScraper
       \<in> set (fst (facebook_api_search sample_builtins facebook_scraper_answers (Some acme_request)))"
    using fallback_chain [where js = sample_builtins and body = acme_request
        and kw = "utf16 ''acme''" and fb = facebook_scraper_answers and ss = ?page]
      kw f0 acme_facebook_scraper
    by simp_all
  show ?thesis using 1 2 3 4 5 6 7 8 by (intro conjI) assumption+
qed

subsection \<open>Which candidates a step includes\<close>

lemma twitter_user_loop_filter:
  "twitter_user_loop js kw t users results =
     results @ map (\<lambda>u. \<lparr>name = user_name u, description = user_description u,
                       url = utf16 ''https://twitter.com/'' @ username u\<rparr>)
            (filter (\<lambda>u. at_least js (calculateSimilarity_js js (user_name u) kw) t
                          \<or> at_least js (calculateSimilarity_js js (username u) kw) t
                          \<or> mentions js (user_description u) kw) users)"
  by (induction users arbitrary: results) (simp_all add: Let_def)

lemma nitter_loop_filter:
  "nitter_loop js kw t matches results =
     results @ map (\<lambda>(m1, m2, m3). \<lparr>name = trim m2, description = Some (trim m3),
                                  url = utf16 ''https://twitter.com/'' @ m1\<rparr>)
            (filter (\<lambda>(m1, m2, m3). at_least js (calculateSimilarity_js js (trim m2) kw) t
                          \<or> at_least js (calculateSimilarity_js js m1 kw) t
                          \<or> mentions js (Some (trim m3)) kw) matches)"
  by (induction js kw t matches results rule: nitter_loop.induct) (simp_all add: Let_def)

lemma direct_loop_filter:
  "direct_loop js kw t users results =
     results @ map (\<lambda>u. \<lparr>name = default_to (entity_name u) [],
                       description = Some (default_to (entity_description u) []),
                       url = utf16 ''https://twitter.com/'' @ default_to (screen_name u) []\<rparr>)
            (filter (\<lambda>u. at_least js (calculateSimilarity_js js (default_to (entity_name u) []) kw) t
                          \<or> at_least js (calculateSimilarity_js js (default_to (screen_name u) []) kw) t
                          \<or> includes_str (lowerCase js (default_to (entity_description u) []))
                               (lowerCase js kw)) users)"
  by (induction users arbitrary: results) (simp_all add: Let_def)

lemma facebook_page_loop_filter:
  "facebook_page_loop js kw t pages results =
     results @ map (\<lambda>p. \<lparr>name = page_name p, description = about p, url = page_link p\<rparr>)
            (filter (\<lambda>p. at_least js (calculateSimilarity_js js (page_name p) kw) t) pages)"
  by (induction pages arbitrary: results) (simp_all add: Let_def)

lemma facebook_user_loop_filter:
  "facebook_user_loop js kw t users results =
     results @ map (\<lambda>u. \<lparr>name = profile_name u, description = None, url = profile_link u\<rparr>)
            (filter (\<lambda>u. at_least js (calculateSimilarity_js js (profile_name u) kw) t) users)"
  by (induction users arbitrary: results) (simp_all add: Let_def)

lemma facebook_match_loop_filter:
  "facebook_match_loop js kw matches results =
     results @ map (\<lambda>(m1, m2). \<lparr>name = m2, description = None, url = m1\<rparr>)
            (filter (\<lambda>(m1, m2). js_ge (calculateSimilarity_js js m2 kw) (Num seven_tenths)) matches)"
  by (induction js kw matches results rule: facebook_match_loop.induct) (simp_all add: Let_def)

lemma searchTwitterAccountsViaAPI_body:
  "searchTwitterAccountsViaAPI js options (Body data) =
     Inr (map (\<lambda>u. \<lparr>name = user_name u, description = user_description u,
                       url = utf16 ''https://twitter.com/'' @ username u\<rparr>)
            (filter (\<lambda>u. at_least js (calculateSimilarity_js js (user_name u) (keyword options))
                             (default_to (fuzzyThreshold options) (JNum seven_tenths))
                          \<or> at_least js (calculateSimilarity_js js (username u) (keyword options))
                               (default_to (fuzzyThreshold options) (JNum seven_tenths))
                          \<or> mentions js (user_description u) (keyword options))
               (default_to data [])))"
  by (simp add: searchTwitterAccountsViaAPI_def read_body_def try_catch_def Let_def
      twitter_user_loop_filter)

lemma scrapeTwitterResults_body:
  "scrapeTwitterResults js options (Body matches) =
     Inr (map (\<lambda>(m1, m2, m3). \<lparr>name = trim m2, description = Some (trim m3),
                                  url = utf16 ''https://twitter.com/'' @ m1\<rparr>)
            (filter (\<lambda>(m1, m2, m3).
                         at_least js (calculateSimilarity_js js (trim m2) (keyword options))
                           (default_to (fuzzyThreshold options) (JNum seven_tenths))
                       \<or> at_least js (calculateSimilarity_js js m1 (keyword options))
                           (default_to (fuzzyThreshold options) (JNum seven_tenths))
                       \<or> mentions js (Some (trim m3)) (keyword options))
               matches))"
  by (simp add: scrapeTwitterResults_def read_body_def try_catch_def Let_def
      nitter_loop_filter)

lemma scrapeDirectTwitterResults_body:
  "scrapeDirectTwitterResults js options (Body (UserEntities users)) =
     Inr (map (\<lambda>u. \<lparr>name = default_to (entity_name u) [],
                       description = Some (default_to (entity_description u) []),
                       url = utf16 ''https://twitter.com/'' @ default_to (screen_name u) []\<rparr>)
            (filter (\<lambda>u. at_least js
                             (calculateSimilarity_js js (default_to (entity_name u) [])
                                (keyword options))
                             (default_to (fuzzyThreshold options) (JNum seven_tenths))
                          \<or> at_least js
                               (calculateSimilarity_js js (default_to (screen_name u) [])
                                  (keyword options))
                               (default_to (fuzzyThreshold options) (JNum seven_tenths))
                          \<or> includes_str (lowerCase js (default_to (entity_description u) []))
                               (lowerCase js (keyword options)))
               users))"
  by (simp add: scrapeDirectTwitterResults_def read_body_def try_catch_def Let_def
      direct_loop_filter)

lemma searchFacebookAccounts_both:
  "searchFacebookAccounts js options (fb\<lparr>page_search := Body pages, user_search := Body profiles\<rparr>) =
     Inr (map (\<lambda>p. \<lparr>name = page_name p, description = about p, url = page_link p\<rparr>)
            (filter (\<lambda>p. at_least js (calculateSimilarity_js js (page_name p) (keyword options))
                             (default_to (fuzzyThreshold options) (JNum seven_tenths)))
               (default_to pages []))
          @ map (\<lambda>u. \<lparr>name = profile_name u, description = None, url = profile_link u\<rparr>)
              (filter (\<lambda>u. at_least js (calculateSimilarity_js js (profile_name u) (keyword options))
                               (default_to (fuzzyThreshold options) (JNum seven_tenths)))
                 (default_to profiles [])))"
  by (simp add: searchFacebookAccounts_def read_body_def try_catch_def Let_def
      facebook_page_loop_filter facebook_user_loop_filter)

lemma searchFacebookAccounts_pages_only:
  "searchFacebookAccounts js options (fb\<lparr>page_search := Body pages, user_search := NotOk\<rparr>) =
     Inr (map (\<lambda>p. \<lparr>name = page_name p, description = about p, url = page_link p\<rparr>)
            (filter (\<lambda>p. at_least js (calculateSimilarity_js js (page_name p) (keyword options))
                             (default_to (fuzzyThreshold options) (JNum seven_tenths)))
               (default_to pages [])))"
  by (simp add: searchFacebookAccounts_def read_body_def try_catch_def Let_def
      facebook_page_loop_filter)

lemma searchFacebookAccounts_users_lost:
  "searchFacebookAccounts js options (fb\<lparr>page_search := Body pages, user_search := Rejects\<rparr>)
     = Inr []"
  "searchFacebookAccounts js options (fb\<lparr>page_search := Body pages, user_search := BodyRejects\<rparr>)
     = Inr []"
  by (simp_all add: searchFacebookAccounts_def read_body_def try_catch_def Let_def)

lemma searchFacebookAccounts_pages_lost:
  "searchFacebookAccounts js options (fb\<lparr>page_search := Rejects\<rparr>) = Inr []"
  "searchFacebookAccounts js options (fb\<lparr>page_search := NotOk\<rparr>) = Inr []"
  "searchFacebookAccounts js options (fb\<lparr>page_search := BodyRejects\<rparr>) = Inr []"
  by (simp_all add: searchFacebookAccounts_def read_body_def try_catch_def Let_def)

lemma scrapeFacebookResults_body:
  "scrapeFacebookResults js kw (fb\<lparr>search_page := Body matches\<rparr>) =
     Inr (map (\<lambda>(m1, m2). \<lparr>name = m2, description = None, url = m1\<rparr>)
            (filter (\<lambda>(m1, m2). js_ge (calculateSimilarity_js js m2 kw) (Num seven_tenths))
               matches))"
  by (simp add: scrapeFacebookResults_def read_body_def try_catch_def
      facebook_match_loop_filter)

lemma Shop_acme:
  "calculateSimilarity_js sample_builtins (utf16 ''Shop'') (utf16 ''acme'') = Num 0"
proof -
  have "levenshtein (utf16 ''shop'') (utf16 ''acme'') = 4" by (simp add: utf16_def)
  then show ?thesis
    by (simp add: calculateSimilarity_js_distance sample_lower_acme double_div_def)
       (simp add: utf16_def)
qed

lemma Acne_acme:
  "calculateSimilarity_js sample_builtins (utf16 ''Acne'') (utf16 ''acme'') = Num (3 / 4)"
proof -
  have "levenshtein (utf16 ''acne'') (utf16 ''acme'') = 1" by (simp add: utf16_def)
  moreover have "double_of (1 / 4) = Num (1 / 4)" by (simp add: double_simps)
  moreover have "double_of (3 / 4) = Num (3 / 4)" by (simp add: double_simps)
  ultimately show ?thesis
    by (simp add: calculateSimilarity_js_distance sample_lower_acme double_div_def)
       (simp add: utf16_def)
qed

lemma sample_lower_letters:
  "lowerCase sample_builtins (utf16 ''ac'') = utf16 ''ac''"
  "lowerCase sample_builtins (utf16 ''ab'') = utf16 ''ab''"
  "lowerCase sample_builtins (utf16 ''avwxy'') = utf16 ''avwxy''"
  "lowerCase sample_builtins (utf16 ''zzzzz'') = utf16 ''zzzzz''"
  "lowerCase sample_builtins (utf16 ''abcde'') = utf16 ''abcde''"
  by (simp_all add: sample_builtins_def sample_lowerCase_def sample_lower_unit_def utf16_def)

lemma ac_ab:
  "calculateSimilarity_js sample_builtins (utf16 ''ac'') (utf16 ''ab'') = Num (1 / 2)"
proof -
  have "levenshtein (utf16 ''ac'') (utf16 ''ab'') = 1" by (simp add: utf16_def)
  moreover have "double_of (1 / 2) = Num (1 / 2)" by (simp add: double_simps)
  ultimately show ?thesis
    by (simp add: calculateSimilarity_js_distance sample_lower_letters double_div_def)
       (simp add: utf16_def)
qed

lemma avwxy_abcde:
  "calculateSimilarity_js sample_builtins (utf16 ''avwxy'') (utf16 ''abcde'')
     = Num (900719925474099 / 4503599627370496)"
proof -
  have "levenshtein (utf16 ''avwxy'') (utf16 ''abcde'') = 4" by (simp add: utf16_def)
  moreover have "double_of (4 / 5) = Num (3602879701896397 / 4503599627370496)"
    by (simp add: double_simps)
  moreover have "double_of (1 - 3602879701896397 / 4503599627370496)
      = Num (900719925474099 / 4503599627370496)"
    by (simp add: double_simps)
  ultimately show ?thesis
    by (simp add: calculateSimilarity_js_distance sample_lower_letters double_div_def)
       (simp add: utf16_def)
qed

lemma zzzzz_abcde:
  "calculateSimilarity_js sample_builtins (utf16 ''zzzzz'') (utf16 ''abcde'') = Num 0"
proof -
  have "levenshtein (utf16 ''zzzzz'') (utf16 ''abcde'') = 5" by (simp add: utf16_def)
  then show ?thesis
    by (simp add: calculateSimilarity_js_distance sample_lower_letters double_div_def)
       (simp add: utf16_def)
qed

lemma mentions_acme_shop:
  "mentions sample_builtins (Some (utf16 ''the acme shop'')) (utf16 ''acme'')"
  by (simp add: mentions_def sample_builtins_def sample_lowerCase_def sample_lower_unit_def
      utf16_def)

text \<open>
  C5, as the claim states it, fails on the Facebook API step: a page whose description
  contains the keyword and whose name is far from it is not included.
\<close>

theorem facebook_api_ignores_description:
  "mentions sample_builtins (Some (utf16 ''the acme shop'')) (utf16 ''acme'')
   \<and> searchFacebookAccounts sample_builtins acme_options facebook_description_only = Inr []"
  using mentions_acme_shop
  by (simp add: searchFacebookAccounts_def acme_options_def facebook_description_only_def
      read_body_def try_catch_def default_to_def Shop_acme at_least_def to_number_def
      seven_tenths_def)

text \<open>
  C5, amended. In the Twitter API step a user of the response is included exactly when
  the score of its name or of its user name is at least the threshold of the options, or
  its non-empty description contains the keyword, case-insensitively. In the Facebook API
  step the description is not looked at: when both requests are answered, the result is
  the pages whose name scores at least the threshold followed by the users whose name
  does; when the second request has a non-success status, the pages alone; when the second
  request is rejected or its body cannot be read, or the first request fails in any way,
  the result is empty. The comparison is inclusive on the double that the scorer returns:
  a score equal to a numeric threshold is included (threshold 0.5, score 1 - 1/2), a score
  that is not a number never is, and with threshold 0.2 a name at distance 4 from a
  keyword of 5 letters is excluded, since 4/5 rounds up and 1 minus it is
  0.19999999999999996, below the double of 0.2.
\<close>

theorem api_step_inclusion:
  "searchTwitterAccountsViaAPI js options (Body data) =
     Inr (map (\<lambda>u. \<lparr>name = user_name u, description = user_description u,
                       url = utf16 ''https://twitter.com/'' @ username u\<rparr>)
            (filter (\<lambda>u. at_least js (calculateSimilarity_js js (user_name u) (keyword options))
                             (default_to (fuzzyThreshold options) (JNum seven_tenths))
                          \<or> at_least js (calculateSimilarity_js js (username u) (keyword options))
                               (default_to (fuzzyThreshold options) (JNum seven_tenths))
                          \<or> mentions js (user_description u) (keyword options))
               (default_to data [])))
   \<and> searchFacebookAccounts js options
         (fb\<lparr>page_search := Body pages, user_search := Body profiles\<rparr>) =
       Inr (map (\<lambda>p. \<lparr>name = page_name p, description = about p, url = page_link p\<rparr>)
              (filter (\<lambda>p. at_least js (calculateSimilarity_js js (page_name p) (keyword options))
                               (default_to (fuzzyThreshold options) (JNum seven_tenths)))
                 (default_to pages []))
            @ map (\<lambda>u. \<lparr>name = profile_name u, description = None, url = profile_link u\<rparr>)
                (filter (\<lambda>u. at_least js
                                 (calculateSimilarity_js js (profile_name u) (keyword options))
                                 (default_to (fuzzyThreshold options) (JNum seven_tenths)))
                   (default_to profiles [])))
   \<and> searchFacebookAccounts js options
         (fb\<lparr>page_search := Body pages, user_search := NotOk\<rparr>) =
       Inr (map (\<lambda>p. \<lparr>name = page_name p, description = about p, url = page_link p\<rparr>)
              (filter (\<lambda>p. at_least js (calculateSimilarity_js js (page_name p) (keyword options))
                               (default_to (fuzzyThreshold options) (JNum seven_tenths)))
                 (default_to pages [])))
   \<and> searchFacebookAccounts js options
         (fb\<lparr>page_search := Body pages, user_search := Rejects\<rparr>) = Inr []
   \<and> searchFacebookAccounts js options
         (fb\<lparr>page_search := Body pages, user_search := BodyRejects\<rparr>) = Inr []
   \<and> searchFacebookAccounts js options (fb\<lparr>page_search := Rejects\<rparr>) = Inr []
   \<and> searchFacebookAccounts js options (fb\<lparr>page_search := NotOk\<rparr>) = Inr []
   \<and> searchFacebookAccounts js options (fb\<lparr>page_search := BodyRejects\<rparr>) = Inr []
   \<and> at_least js (Num q) (JNum q)
   \<and> \<not> at_least js NaN (JNum q)
   \<and> calculateSimilarity_js sample_builtins (utf16 ''ac'') (utf16 ''ab'') = Num (1 / 2)
   \<and> searchTwitterAccountsViaAPI sample_builtins half_options
         (Body (Some [TwitterUser (utf16 ''ac'') (utf16 ''zz'') None])) =
       Inr [\<lparr>name = utf16 ''ac'', description = None, url = utf16 ''https://twitter.com/zz''\<rparr>]
   \<and> calculateSimilarity_js sample_builtins (utf16 ''avwxy'') (utf16 ''abcde'') =
       Num (900719925474099 / 4503599627370496)
   \<and> \<not> at_least sample_builtins (Num (900719925474099 / 4503599627370496)) (JNum one_fifth)
   \<and> searchTwitterAccountsViaAPI sample_builtins fifth_options
         (Body (Some [TwitterUser (utf16 ''avwxy'') (utf16 ''zzzzz'') None])) = Inr []"
proof (intro conjI)
  show "searchTwitterAccountsViaAPI js options (Body data) =
     Inr (map (\<lambda>u. \<lparr>name = user_name u, description = user_description u,
                       url = utf16 ''https://twitter.com/'' @ username u\<rparr>)
            (filter (\<lambda>u. at_least js (calculateSimilarity_js js (user_name u) (keyword options))
                             (default_to (fuzzyThreshold options) (JNum seven_tenths))
                          \<or> at_least js (calculateSimilarity_js js (username u) (keyword options))
                               (default_to (fuzzyThreshold options) (JNum seven_tenths))
                          \<or> mentions js (user_description u) (keyword options))
               (default_to data [])))"
    by (rule searchTwitterAccountsViaAPI_body)
  show "searchFacebookAccounts js options
         (fb\<lparr>page_search := Body pages, user_search := Body profiles\<rparr>) =
       Inr (map (\<lambda>p. \<lparr>name = page_name p, description = about p, url = page_link p\<rparr>)
              (filter (\<lambda>p. at_least js (calculateSimilarity_js js (page_name p) (keyword options))
                               (default_to (fuzzyThreshold options) (JNum seven_tenths)))
                 (default_to pages []))
            @ map (\<lambda>u. \<lparr>name = profile_name u, description = None, url = profile_link u\<rparr>)
                (filter (\<lambda>u. at_least js
                                 (calculateSimilarity_js js (profile_name u) (keyword options))
                                 (default_to (fuzzyThreshold options) (JNum seven_tenths)))
                   (default_to profiles [])))"
    by (rule searchFacebookAccounts_both)
  show "searchFacebookAccounts js options
         (fb\<lparr>page_search := Body pages, user_search := NotOk\<rparr>) =
       Inr (map (\<lambda>p. \<lparr>name = page_name p, description = about p, url = page_link p\<rparr>)
              (filter (\<lambda>p. at_least js (calculateSimilarity_js js (page_name p) (keyword options))
                               (default_to (fuzzyThreshold options) (JNum seven_tenths)))
                 (default_to pages [])))"
    by (rule searchFacebookAccounts_pages_only)
  show "searchFacebookAccounts js options
         (fb\<lparr>page_search := Body pages, user_search := Rejects\<rparr>) = Inr []"
    by (rule searchFacebookAccounts_users_lost)
  show "searchFacebookAccounts js options
         (fb\<lparr>page_search := Body pages, user_search := BodyRejects\<rparr>) = Inr []"
    by (rule searchFacebookAccounts_users_lost)
  show "searchFacebookAccounts js options (fb\<lparr>page_search := Rejects\<rparr>) = Inr []"
    by (rule searchFacebookAccounts_pages_lost)
  show "searchFacebookAccounts js options (fb\<lparr>page_search := NotOk\<rparr>) = Inr []"
    by (rule searchFacebookAccounts_pages_lost)
  show "searchFacebookAccounts js options (fb\<lparr>page_search := BodyRejects\<rparr>) = Inr []"
    by (rule searchFacebookAccounts_pages_lost)
  show "at_least js (Num q) (JNum q)"
    by (simp add: at_least_def to_number_def)
  show "\<not> at_least js NaN (JNum q)"
    by (simp add: at_least_def to_number_def)
  show "calculateSimilarity_js sample_builtins (utf16 ''ac'') (utf16 ''ab'') = Num (1 / 2)"
    by (rule ac_ab)
  show "searchTwitterAccountsViaAPI sample_builtins half_options
         (Body (Some [TwitterUser (utf16 ''ac'') (utf16 ''zz'') None])) =
       Inr [\<lparr>name = utf16 ''ac'', description = None, url = utf16 ''https://twitter.com/zz''\<rparr>]"
    by (simp add: searchTwitterAccountsViaAPI_body half_options_def default_to_def ac_ab
        at_least_def to_number_def)
       (simp add: utf16_def)
  show "calculateSimilarity_js sample_builtins (utf16 ''avwxy'') (utf16 ''abcde'') =
       Num (900719925474099 / 4503599627370496)"
    by (rule avwxy_abcde)
  show "\<not> at_least sample_builtins (Num (900719925474099 / 4503599627370496)) (JNum one_fifth)"
    by (simp add: at_least_def to_number_def one_fifth_def)
  show "searchTwitterAccountsViaAPI sample_builtins fifth_options
         (Body (Some [TwitterUser (utf16 ''avwxy'') (utf16 ''zzzzz'') None])) = Inr []"
    by (simp add: searchTwitterAccountsViaAPI_body fifth_options_def default_to_def avwxy_abcde
        zzzzz_abcde at_least_def to_number_def one_fifth_def mentions_def)
qed

text \<open>
  C6. The claim is that every scraping fallback applies the inclusion rule of the API step
  with the threshold of the request. The two Twitter scrapers do. The Facebook scraper
  does not: it is given the keyword and the delay only, compares the score of the name
  with the literal 0.7 and has no description to test. For a request with threshold 0.9
  whose API step finds nothing, the reply holds the scraped page Acne, whose score
  against acme is 0.75.
\<close>

theorem facebook_scraper_ignores_threshold:
  "scrapeTwitterResults js options (Body nitter) =
     Inr (map (\<lambda>(m1, m2, m3). \<lparr>name = trim m2, description = Some (trim m3),
                                  url = utf16 ''https://twitter.com/'' @ m1\<rparr>)
            (filter (\<lambda>(m1, m2, m3).
                         at_least js (calculateSimilarity_js js (trim m2) (keyword options))
                           (default_to (fuzzyThreshold options) (JNum seven_tenths))
                       \<or> at_least js (calculateSimilarity_js js m1 (keyword options))
                           (default_to (fuzzyThreshold options) (JNum seven_tenths))
                       \<or> mentions js (Some (trim m3)) (keyword options))
               nitter))
   \<and> scrapeDirectTwitterResults js options (Body (UserEntities users)) =
     Inr (map (\<lambda>u. \<lparr>name = default_to (entity_name u) [],
                       description = Some (default_to (entity_description u) []),
                       url = utf16 ''https://twitter.com/'' @ default_to (screen_name u) []\<rparr>)
            (filter (\<lambda>u. at_least js
                             (calculateSimilarity_js js (default_to (entity_name u) [])
                                (keyword options))
                             (default_to (fuzzyThreshold options) (JNum seven_tenths))
                          \<or> at_least js
                               (calculateSimilarity_js js (default_to (screen_name u) [])
                                  (keyword options))
                               (default_to (fuzzyThreshold options) (JNum seven_tenths))
                          \<or> includes_str (lowerCase js (default_to (entity_description u) []))
                               (lowerCase js (keyword options)))
               users))
   \<and> scrapeFacebookResults js kw (fb\<lparr>search_page := Body matches\<rparr>) =
     Inr (map (\<lambda>(m1, m2). \<lparr>name = m2, description = None, url = m1\<rparr>)
            (filter (\<lambda>(m1, m2). js_ge (calculateSimilarity_js js m2 kw) (Num seven_tenths))
               matches))
   \<and> fuzzyThreshold (facebook_options (utf16 ''acme'') strict_request) = Some (JNum nine_tenths)
   \<and> searchFacebookAccounts sample_builtins (facebook_options (utf16 ''acme'') strict_request)
         facebook_near_miss = Inr []
   \<and> facebook_api_search sample_builtins facebook_near_miss (Some strict_request) =
       ([Api, PageScraper],
        SearchResults (utf16 ''acme'') 1
          [\<lparr>name = utf16 ''Acne'', description = None,
            url = utf16 ''https://www.facebook.com/acne''\<rparr>])
   \<and> calculateSimilarity_js sample_builtins (utf16 ''Acne'') (utf16 ''acme'') = Num (3 / 4)
   \<and> \<not> at_least sample_builtins (Num (3 / 4)) (JNum nine_tenths)"
proof (intro conjI)
  show "scrapeTwitterResults js options (Body nitter) =
     Inr (map (\<lambda>(m1, m2, m3). \<lparr>name = trim m2, description = Some (trim m3),
                                  url = utf16 ''https://twitter.com/'' @ m1\<rparr>)
            (filter (\<lambda>(m1, m2, m3).
                         at_least js (calculateSimilarity_js js (trim m2) (keyword options))
                           (default_to (fuzzyThreshold options) (JNum seven_tenths))
                       \<or> at_least js (calculateSimilarity_js js m1 (keyword options))
                           (default_to (fuzzyThreshold options) (JNum seven_tenths))
                       \<or> mentions js (Some (trim m3)) (keyword options))
               nitter))"
    by (rule scrapeTwitterResults_body)
  show "scrapeDirectTwitterResults js options (Body (UserEntities users)) =
     Inr (map (\<lambda>u. \<lparr>name = default_to (entity_name u) [],
                       description = Some (default_to (entity_description u) []),
                       url = utf16 ''https://twitter.com/'' @ default_to (screen_name u) []\<rparr>)
            (filter (\<lambda>u. at_least js
                             (calculateSimilarity_js js (default_to (entity_name u) [])
                                (keyword options))
                             (default_to (fuzzyThreshold options) (JNum seven_tenths))
                          \<or> at_least js
                               (calculateSimilarity_js js (default_to (screen_name u) [])
                                  (keyword options))
                               (default_to (fuzzyThreshold options) (JNum seven_tenths))
                          \<or> includes_str (lowerCase js (default_to (entity_description u) []))
                               (lowerCase js (keyword options)))
               users))"
    by (rule scrapeDirectTwitterResults_body)
  show "scrapeFacebookResults js kw (fb\<lparr>search_page := Body matches\<rparr>) =
     Inr (map (\<lambda>(m1, m2). \<lparr>name = m2, description = None, url = m1\<rparr>)
            (filter (\<lambda>(m1, m2). js_ge (calculateSimilarity_js js m2 kw) (Num seven_tenths))
               matches))"
    by (rule scrapeFacebookResults_body)
  show "fuzzyThreshold (facebook_options (utf16 ''acme'') strict_request) = Some (JNum nine_tenths)"
    by (simp add: facebook_options_def strict_request_def or_else_def falsy_def nine_tenths_def)
  show api: "searchFacebookAccounts sample_builtins (facebook_options (utf16 ''acme'') strict_request)
         facebook_near_miss = Inr []"
    by (simp add: searchFacebookAccounts_def facebook_near_miss_def read_body_def try_catch_def
        default_to_def Let_def)
  have scr: "scrapeFacebookResults sample_builtins (utf16 ''acme'') facebook_near_miss =
      Inr [\<lparr>name = utf16 ''Acne'', description = None,
            url = utf16 ''https://www.facebook.com/acne''\<rparr>]"
    by (simp add: scrapeFacebookResults_def facebook_near_miss_def read_body_def try_catch_def
        Acne_acme seven_tenths_def)
  show "facebook_api_search sample_builtins facebook_near_miss (Some strict_request) =
       ([Api, PageScraper],
        SearchResults (utf16 ''acme'') 1
          [\<lparr>name = utf16 ''Acne'', description = None,
            url = utf16 ''https://www.facebook.com/acne''\<rparr>])"
    using api scr by (simp add: facebook_api_search_def strict_request_def)
  show "calculateSimilarity_js sample_builtins (utf16 ''Acne'') (utf16 ''acme'') = Num (3 / 4)"
    by (rule Acne_acme)
  show "\<not> at_least sample_builtins (Num (3 / 4)) (JNum nine_tenths)"
    by (simp add: at_least_def to_number_def nine_tenths_def)
qed

subsection \<open>Candidates with the same address\<close>






subsection \<open>Falsy options\<close>

lemma falsy_iff: "falsy x \<longleftrightarrow> x \<in> {JNull, JBool False, JNum 0, JStr []}"
  by (cases x) (auto simp: falsy_def)

lemma or_else_falsy: "falsy x \<Longrightarrow> or_else (Some x) d = or_else None d"
  by (simp add: or_else_def)

lemma or_else_truthy: "\<not> falsy x \<Longrightarrow> or_else (Some x) d = x"
  by (simp add: or_else_def)

lemma or_else_nonzero: "d \<noteq> JNum 0 \<Longrightarrow> or_else v d \<noteq> JNum 0"
  by (auto simp: or_else_def falsy_def split: option.splits)

lemma seven_tenths_nonzero: "JNum seven_tenths \<noteq> JNum 0"
  by (simp add: seven_tenths_def)

lemma sample_zero: "to_number sample_builtins (JStr (utf16 ''0'')) = Num 0"
  by (simp add: to_number_def sample_builtins_def sample_stringToNumber_def utf16_def)

text \<open>
  C10, as the claim states it, fails on its last part: the body of a request is not
  validated, the string "0" is truthy and is passed on as the threshold, and the
  comparison converts it to the number 0. With that request the Facebook search includes
  a page whose name scores 0; with the default threshold the same answers give no
  candidate.
\<close>

theorem string_zero_is_a_zero_threshold:
  "\<not> falsy (JStr (utf16 ''0''))
   \<and> fuzzyThreshold (facebook_options (utf16 ''acme'') zero_string_request)
       = Some (JStr (utf16 ''0''))
   \<and> to_number sample_builtins (JStr (utf16 ''0'')) = Num 0
   \<and> calculateSimilarity_js sample_builtins (utf16 ''Shop'') (utf16 ''acme'') = Num 0
   \<and> facebook_api_search sample_builtins facebook_far_answers (Some zero_string_request) =
       ([Api], SearchResults (utf16 ''acme'') 1
          [\<lparr>name = utf16 ''Shop'', description = None,
            url = utf16 ''https://www.facebook.com/shop''\<rparr>])
   \<and> facebook_api_search sample_builtins facebook_far_answers (Some acme_request) =
       ([Api, PageScraper], SearchResults (utf16 ''acme'') 0 [])"
proof (intro conjI)
  show t: "\<not> falsy (JStr (utf16 ''0''))"
    by (simp add: falsy_def)
  then show "fuzzyThreshold (facebook_options (utf16 ''acme'') zero_string_request)
       = Some (JStr (utf16 ''0''))"
    by (simp add: facebook_options_def zero_string_request_def or_else_def)
  show "to_number sample_builtins (JStr (utf16 ''0'')) = Num 0"
    by (rule sample_zero)
  show "calculateSimilarity_js sample_builtins (utf16 ''Shop'') (utf16 ''acme'') = Num 0"
    by (rule Shop_acme)
  have "searchFacebookAccounts sample_builtins
          (facebook_options (utf16 ''acme'') zero_string_request) facebook_far_answers =
        Inr [\<lparr>name = utf16 ''Shop'', description = None,
               url = utf16 ''https://www.facebook.com/shop''\<rparr>]"
    using t
    by (simp add: searchFacebookAccounts_def facebook_options_def zero_string_request_def
        or_else_def facebook_far_answers_def read_body_def try_catch_def default_to_def Let_def
        Shop_acme at_least_def sample_zero)
  then show "facebook_api_search sample_builtins facebook_far_answers (Some zero_string_request) =
       ([Api], SearchResults (utf16 ''acme'') 1
          [\<lparr>name = utf16 ''Shop'', description = None,
            url = utf16 ''https://www.facebook.com/shop''\<rparr>])"
    by (simp add: facebook_api_search_def zero_string_request_def)
  have "searchFacebookAccounts sample_builtins
          (facebook_options (utf16 ''acme'') acme_request) facebook_far_answers = Inr []"
    by (simp add: searchFacebookAccounts_def facebook_options_def acme_request_def
        or_else_def facebook_far_answers_def read_body_def try_catch_def default_to_def Let_def
        Shop_acme at_least_def to_number_def seven_tenths_def)
  moreover have "scrapeFacebookResults sample_builtins (utf16 ''acme'') facebook_far_answers = Inr []"
    by (simp add: scrapeFacebookResults_failed failed_def facebook_far_answers_def)
  ultimately show "facebook_api_search sample_builtins facebook_far_answers (Some acme_request) =
       ([Api, PageScraper], SearchResults (utf16 ''acme'') 0 [])"
    by (simp add: facebook_api_search_def acme_request_def)
qed

text \<open>
  C10, amended. The \<open>/api/search\<close> handlers of Twitter and Facebook replace an option
  that is falsy (\<open>null\<close>, \<open>false\<close>, the number 0, the empty string) by the default of
  the platform: the options built from such a request are those built from the request
  without the field (limit 100 or 25, delay 2000 or 1000, threshold 0.7), and for the
  threshold the reply is the same too. Every other value is passed on unchanged. The
  number 0 is therefore never the threshold of a search.
\<close>

theorem falsy_option_is_replaced:
  "(falsy x \<longrightarrow>
      twitter_options kw (body\<lparr>request_limit := Some x\<rparr>) =
        twitter_options kw (body\<lparr>request_limit := None\<rparr>)
    \<and> twitter_options kw (body\<lparr>request_throttleMs := Some x\<rparr>) =
        twitter_options kw (body\<lparr>request_throttleMs := None\<rparr>)
    \<and> twitter_options kw (body\<lparr>request_fuzzyThreshold := Some x\<rparr>) =
        twitter_options kw (body\<lparr>request_fuzzyThreshold := None\<rparr>)
    \<and> facebook_options kw (body\<lparr>request_limit := Some x\<rparr>) =
        facebook_options kw (body\<lparr>request_limit := None\<rparr>)
    \<and> facebook_options kw (body\<lparr>request_throttleMs := Some x\<rparr>) =
        facebook_options kw (body\<lparr>request_throttleMs := None\<rparr>)
    \<and> facebook_options kw (body\<lparr>request_fuzzyThreshold := Some x\<rparr>) =
        facebook_options kw (body\<lparr>request_fuzzyThreshold := None\<rparr>)
    \<and> twitter_api_search js cfg tw (Some (body\<lparr>request_fuzzyThreshold := Some x\<rparr>)) =
        twitter_api_search js cfg tw (Some (body\<lparr>request_fuzzyThreshold := None\<rparr>))
    \<and> facebook_api_search js fb (Some (body\<lparr>request_fuzzyThreshold := Some x\<rparr>)) =
        facebook_api_search js fb (Some (body\<lparr>request_fuzzyThreshold := None\<rparr>)))
   \<and> limit (twitter_options kw (body\<lparr>request_limit := None\<rparr>)) = Some (JNum 100)
   \<and> throttleMs (twitter_options kw (body\<lparr>request_throttleMs := None\<rparr>)) = Some (JNum 2000)
   \<and> fuzzyThreshold (twitter_options kw (body\<lparr>request_fuzzyThreshold := None\<rparr>))
       = Some (JNum seven_tenths)
   \<and> limit (facebook_options kw (body\<lparr>request_limit := None\<rparr>)) = Some (JNum 25)
   \<and> throttleMs (facebook_options kw (body\<lparr>request_throttleMs := None\<rparr>)) = Some (JNum 1000)
   \<and> fuzzyThreshold (facebook_options kw (body\<lparr>request_fuzzyThreshold := None\<rparr>))
       = Some (JNum seven_tenths)
   \<and> (\<not> falsy x \<longrightarrow>
        limit (twitter_options kw (body\<lparr>request_limit := Some x\<rparr>)) = Some x
      \<and> throttleMs (twitter_options kw (body\<lparr>request_throttleMs := Some x\<rparr>)) = Some x
      \<and> fuzzyThreshold (twitter_options kw (body\<lparr>request_fuzzyThreshold := Some x\<rparr>)) = Some x
      \<and> limit (facebook_options kw (body\<lparr>request_limit := Some x\<rparr>)) = Some x
      \<and> throttleMs (facebook_options kw (body\<lparr>request_throttleMs := Some x\<rparr>)) = Some x
      \<and> fuzzyThreshold (facebook_options kw (body\<lparr>request_fuzzyThreshold := Some x\<rparr>)) = Some x)
   \<and> (falsy x \<longleftrightarrow> x \<in> {JNull, JBool False, JNum 0, JStr []})
   \<and> fuzzyThreshold (twitter_options kw body) \<noteq> Some (JNum 0)
   \<and> fuzzyThreshold (facebook_options kw body) \<noteq> Some (JNum 0)"
proof (intro conjI impI)
  assume f: "falsy x"
  show "twitter_options kw (body\<lparr>request_limit := Some x\<rparr>) =
        twitter_options kw (body\<lparr>request_limit := None\<rparr>)"
    using f by (simp add: twitter_options_def or_else_def)
  show "twitter_options kw (body\<lparr>request_throttleMs := Some x\<rparr>) =
        twitter_options kw (body\<lparr>request_throttleMs := None\<rparr>)"
    using f by (simp add: twitter_options_def or_else_def)
  show t: "twitter_options kw (body\<lparr>request_fuzzyThreshold := Some x\<rparr>) =
        twitter_options kw (body\<lparr>request_fuzzyThreshold := None\<rparr>)" for kw
    using f by (simp add: twitter_options_def or_else_def)
  show "facebook_options kw (body\<lparr>request_limit := Some x\<rparr>) =
        facebook_options kw (body\<lparr>request_limit := None\<rparr>)"
    using f by (simp add: facebook_options_def or_else_def)
  show "facebook_options kw (body\<lparr>request_throttleMs := Some x\<rparr>) =
        facebook_options kw (body\<lparr>request_throttleMs := None\<rparr>)"
    using f by (simp add: facebook_options_def or_else_def)
  show g: "facebook_options kw (body\<lparr>request_fuzzyThreshold := Some x\<rparr>) =
        facebook_options kw (body\<lparr>request_fuzzyThreshold := None\<rparr>)" for kw
    using f by (simp add: facebook_options_def or_else_def)
  show "twitter_api_search js cfg tw (Some (body\<lparr>request_fuzzyThreshold := Some x\<rparr>)) =
        twitter_api_search js cfg tw (Some (body\<lparr>request_fuzzyThreshold := None\<rparr>))"
    by (simp add: twitter_api_search_def t split: option.splits)
  show "facebook_api_search js fb (Some (body\<lparr>request_fuzzyThreshold := Some x\<rparr>)) =
        facebook_api_search js fb (Some (body\<lparr>request_fuzzyThreshold := None\<rparr>))"
    by (simp add: facebook_api_search_def g split: option.splits)
next
  show "limit (twitter_options kw (body\<lparr>request_limit := None\<rparr>)) = Some (JNum 100)"
    by (simp add: twitter_options_def or_else_def)
  show "throttleMs (twitter_options kw (body\<lparr>request_throttleMs := None\<rparr>)) = Some (JNum 2000)"
    by (simp add: twitter_options_def or_else_def)
  show "fuzzyThreshold (twitter_options kw (body\<lparr>request_fuzzyThreshold := None\<rparr>))
       = Some (JNum seven_tenths)"
    by (simp add: twitter_options_def or_else_def)
  show "limit (facebook_options kw (body\<lparr>request_limit := None\<rparr>)) = Some (JNum 25)"
    by (simp add: facebook_options_def or_else_def)
  show "throttleMs (facebook_options kw (body\<lparr>request_throttleMs := None\<rparr>)) = Some (JNum 1000)"
    by (simp add: facebook_options_def or_else_def)
  show "fuzzyThreshold (facebook_options kw (body\<lparr>request_fuzzyThreshold := None\<rparr>))
       = Some (JNum seven_tenths)"
    by (simp add: facebook_options_def or_else_def)
  show "falsy x \<longleftrightarrow> x \<in> {JNull, JBool False, JNum 0, JStr []}"
    by (rule falsy_iff)
  show "fuzzyThreshold (twitter_options kw body) \<noteq> Some (JNum 0)"
    using or_else_nonzero [OF seven_tenths_nonzero] by (simp add: twitter_options_def)
  show "fuzzyThreshold (facebook_options kw body) \<noteq> Some (JNum 0)"
    using or_else_nonzero [OF seven_tenths_nonzero] by (simp add: facebook_options_def)
next
  assume t: "\<not> falsy x"
  show "limit (twitter_options kw (body\<lparr>request_limit := Some x\<rparr>)) = Some x"
    using t by (simp add: twitter_options_def or_else_def)
  show "throttleMs (twitter_options kw (body\<lparr>request_throttleMs := Some x\<rparr>)) = Some x"
    using t by (simp add: twitter_options_def or_else_def)
  show "fuzzyThreshold (twitter_options kw (body\<lparr>request_fuzzyThreshold := Some x\<rparr>)) = Some x"
    using t by (simp add: twitter_options_def or_else_def)
  show "limit (facebook_options kw (body\<lparr>request_limit := Some x\<rparr>)) = Some x"
    using t by (simp add: facebook_options_def or_else_def)
  show "throttleMs (facebook_options kw (body\<lparr>request_throttleMs := Some x\<rparr>)) = Some x"
    using t by (simp add: facebook_options_def or_else_def)
  show "fuzzyThreshold (facebook_options kw (body\<lparr>request_fuzzyThreshold := Some x\<rparr>)) = Some x"
    using t by (simp add: facebook_options_def or_else_def)
qed

theorem falsy_option_is_replaced_witness:
  "falsy (JNum 0)
   \<and> twitter_options (utf16 ''acme'') (acme_request\<lparr>request_fuzzyThreshold := Some (JNum 0)\<rparr>) =
       twitter_options (utf16 ''acme'') acme_request
   \<and> facebook_api_search sample_builtins facebook_api_answers
         (Some (acme_request\<lparr>request_fuzzyThreshold := Some (JNum 0)\<rparr>)) =
       facebook_api_search sample_builtins facebook_api_answers (Some acme_request)
   \<and> \<not> falsy (JNum (1 / 2))
   \<and> fuzzyThreshold
         (facebook_options (utf16 ''acme'')
            (acme_request\<lparr>request_fuzzyThreshold := Some (JNum (1 / 2))\<rparr>))
       = Some (JNum (1 / 2))"
proof -
  have f: "falsy (JNum 0)" by (simp add: falsy_def)
  have t: "\<not> falsy (JNum (1 / 2))" by (simp add: falsy_def)
  have a: "acme_request\<lparr>request_fuzzyThreshold := None\<rparr> = acme_request"
    by (simp add: acme_request_def)
  have 1: "twitter_options (utf16 ''acme'') (acme_request\<lparr>request_fuzzyThreshold := Some (JNum 0)\<rparr>) =
       twitter_options (utf16 ''acme'') acme_request"
    and 2: "facebook_api_search sample_builtins facebook_api_answers
         (Some (acme_request\<lparr>request_fuzzyThreshold := Some (JNum 0)\<rparr>)) =
       facebook_api_search sample_builtins facebook_api_answers (Some acme_request)"
    using falsy_option_is_replaced [where x = "JNum 0" and kw = "utf16 ''acme''"
        and body = acme_request and js = sample_builtins and fb = facebook_api_answers] f a
    by simp_all
  have 3: "fuzzyThreshold
         (facebook_options (utf16 ''acme'')
            (acme_request\<lparr>request_fuzzyThreshold := Some (JNum (1 / 2))\<rparr>))
       = Some (JNum (1 / 2))"
    using falsy_option_is_replaced [where x = "JNum (1 / 2)" and kw = "utf16 ''acme''"
        and body = acme_request] t
    by simp
  show ?thesis using f 1 2 t 3 by (intro conjI) assumption+
qed

end
